theory Spec2Isabelle
  imports Main "HOL-Library.Word"
begin

unbundle bit_operations_syntax

section \<open>The XDP packet filter of the WRAITH protocol\<close>

text \<open>
  A shallow embedding of \<^verbatim>\<open>crates/wraith-xdp/src/xdp_filter.c\<close>. The program is
  straight-line C for the BPF target: four bounds-checked header parsers, a port
  predicate, a statistics update and the entry point \<^verbatim>\<open>xdp_wraith_filter\<close>.

  Modelling decisions.
  \<^item> The frame is the list of bytes stored between \<^verbatim>\<open>ctx->data\<close> and
    \<^verbatim>\<open>ctx->data_end\<close>. A pointer into the frame is its offset from \<^verbatim>\<open>data\<close>
    (a \<open>nat\<close>), so \<^verbatim>\<open>data\<close> is offset 0 and \<^verbatim>\<open>data_end\<close> is the length of the list.
  \<^item> A parser that returns \<^verbatim>\<open>-1\<close> is \<open>None\<close>; one that returns \<^verbatim>\<open>0\<close> is \<open>Some\<close> of
    the header pointer it stored through its out parameter.
  \<^item> Header fields are read at the offsets the Linux UAPI structures give them
    (\<^verbatim>\<open>struct ethhdr\<close>, \<^verbatim>\<open>iphdr\<close>, \<^verbatim>\<open>ipv6hdr\<close>, \<^verbatim>\<open>udphdr\<close>); multi-byte fields are
    loaded as a little-endian host loads them, and \<^verbatim>\<open>bpf_htons\<close>/\<^verbatim>\<open>bpf_ntohs\<close> swap
    the two bytes. (On a big-endian host the load is big-endian and the macros are
    the identity; the composition that the program uses is the same function of the
    frame bytes, see \<open>ntohs_load_u16\<close> and \<open>frag_test_bytes\<close>.)
  \<^item> The statistics map is a partial map from the 32-bit key to the 64-bit slot of
    the executing CPU; \<^verbatim>\<open>bpf_map_lookup_elem\<close> is application of the map.
    \<^verbatim>\<open>__sync_fetch_and_add\<close> is addition on \<open>64 word\<close>, which wraps.
  \<^item> \<^verbatim>\<open>bpf_redirect_map\<close> is a kernel helper; it is a parameter of the entry point.
\<close>

type_synonym u8 = "8 word"
type_synonym u16 = "16 word"
type_synonym u32 = "32 word"
type_synonym u64 = "64 word"

subsection \<open>Constants of the program and of the headers it includes\<close>

definition WRAITH_PORT_MIN :: int where "WRAITH_PORT_MIN = 40000"
definition WRAITH_PORT_MAX :: int where "WRAITH_PORT_MAX = 50000"

text \<open>\<^verbatim>\<open>enum stat_type\<close>, used as the \<^verbatim>\<open>__u32\<close> key of \<^verbatim>\<open>stats_map\<close>.\<close>

definition STAT_RX_PACKETS :: u32 where "STAT_RX_PACKETS = 0"
definition STAT_RX_BYTES :: u32 where "STAT_RX_BYTES = 1"
definition STAT_DROPPED :: u32 where "STAT_DROPPED = 2"
definition STAT_REDIRECTED :: u32 where "STAT_REDIRECTED = 3"

text \<open>\<^verbatim>\<open>enum xdp_action\<close> of \<^verbatim>\<open>linux/bpf.h\<close>; the entry point returns a C \<^verbatim>\<open>int\<close>.\<close>

definition XDP_ABORTED :: int where "XDP_ABORTED = 0"
definition XDP_DROP :: int where "XDP_DROP = 1"
definition XDP_PASS :: int where "XDP_PASS = 2"
definition XDP_TX :: int where "XDP_TX = 3"
definition XDP_REDIRECT :: int where "XDP_REDIRECT = 4"

text \<open>\<^verbatim>\<open>linux/if_ether.h\<close> and \<^verbatim>\<open>linux/in.h\<close>.\<close>

definition ETH_P_IP :: u16 where "ETH_P_IP = 0x0800"
definition ETH_P_IPV6 :: u16 where "ETH_P_IPV6 = 0x86DD"
definition IPPROTO_UDP :: u8 where "IPPROTO_UDP = 17"

text \<open>\<^verbatim>\<open>sizeof\<close> of the four header structures.\<close>

definition sizeof_ethhdr :: nat where "sizeof_ethhdr = 14"
definition sizeof_iphdr :: nat where "sizeof_iphdr = 20"
definition sizeof_ipv6hdr :: nat where "sizeof_ipv6hdr = 40"
definition sizeof_udphdr :: nat where "sizeof_udphdr = 8"

subsection \<open>The context and the maps\<close>

text \<open>
  \<^verbatim>\<open>struct xdp_md\<close>: the program reads \<^verbatim>\<open>data\<close>, \<^verbatim>\<open>data_end\<close> and
  \<^verbatim>\<open>rx_queue_index\<close>. \<open>frame\<close> holds the bytes at \<^verbatim>\<open>data\<close> .. \<^verbatim>\<open>data_end - 1\<close>.
\<close>

record xdp_md =
  frame :: "u8 list"
  rx_queue_index :: u32

text \<open>\<^verbatim>\<open>stats_map\<close> (this CPU's slots) and \<^verbatim>\<open>xsks_map\<close>.\<close>

type_synonym stats_map = "u32 \<rightharpoonup> u64"
type_synonym xskmap = "u32 \<rightharpoonup> u32"

text \<open>
  The type of \<^verbatim>\<open>bpf_redirect_map(map, key, flags)\<close>; the result is what the
  program stores in \<^verbatim>\<open>int ret\<close>.
\<close>

type_synonym redirect_helper = "xskmap \<Rightarrow> u32 \<Rightarrow> u64 \<Rightarrow> int"

subsection \<open>Byte order and field access\<close>

text \<open>The 16-bit word with the given high and low byte.\<close>

definition bytes16 :: "u8 \<Rightarrow> u8 \<Rightarrow> u16" where
  "bytes16 hi lo = (ucast lo :: u16) OR push_bit 8 (ucast hi :: u16)"

text \<open>
  A 16-bit load at a frame offset, as the little-endian host performs it: the byte
  at the lower address is the low byte.
\<close>

definition load_u16 :: "u8 list \<Rightarrow> nat \<Rightarrow> u16" where
  "load_u16 p off = bytes16 (p ! (off + 1)) (p ! off)"

text \<open>
  \<^verbatim>\<open>bpf_htons\<close> and \<^verbatim>\<open>bpf_ntohs\<close> (\<^verbatim>\<open>bpf/bpf_endian.h\<close>): on this host both
  are the 16-bit byte swap \<^verbatim>\<open>(x << 8) | (x >> 8)\<close>.
\<close>

definition bpf_htons :: "u16 \<Rightarrow> u16" where
  "bpf_htons x = push_bit 8 x OR drop_bit 8 x"

definition bpf_ntohs :: "u16 \<Rightarrow> u16" where
  "bpf_ntohs x = push_bit 8 x OR drop_bit 8 x"

text \<open>\<^verbatim>\<open>eth->h_proto\<close>: bytes 12 and 13 of \<^verbatim>\<open>struct ethhdr\<close>.\<close>

definition h_proto :: "u8 list \<Rightarrow> nat \<Rightarrow> u16" where
  "h_proto p eth = load_u16 p (eth + 12)"

text \<open>
  \<^verbatim>\<open>struct iphdr\<close>: byte 0 carries \<^verbatim>\<open>version\<close> (high nibble) and \<^verbatim>\<open>ihl\<close> (low
  nibble), bytes 6 and 7 are \<^verbatim>\<open>frag_off\<close>, byte 9 is \<^verbatim>\<open>protocol\<close>.
\<close>

definition ip_version :: "u8 list \<Rightarrow> nat \<Rightarrow> u8" where
  "ip_version p iphdr = drop_bit 4 (p ! iphdr)"

definition ip_ihl :: "u8 list \<Rightarrow> nat \<Rightarrow> u8" where
  "ip_ihl p iphdr = (p ! iphdr) AND 0x0F"

definition ip_frag_off :: "u8 list \<Rightarrow> nat \<Rightarrow> u16" where
  "ip_frag_off p iphdr = load_u16 p (iphdr + 6)"

definition ip_protocol :: "u8 list \<Rightarrow> nat \<Rightarrow> u8" where
  "ip_protocol p iphdr = p ! (iphdr + 9)"

text \<open>
  \<^verbatim>\<open>struct ipv6hdr\<close>: the high nibble of byte 0 is \<^verbatim>\<open>version\<close>, byte 6 is
  \<^verbatim>\<open>nexthdr\<close>.
\<close>

definition ipv6_version :: "u8 list \<Rightarrow> nat \<Rightarrow> u8" where
  "ipv6_version p ipv6hdr = drop_bit 4 (p ! ipv6hdr)"

definition ipv6_nexthdr :: "u8 list \<Rightarrow> nat \<Rightarrow> u8" where
  "ipv6_nexthdr p ipv6hdr = p ! (ipv6hdr + 6)"

text \<open>\<^verbatim>\<open>struct udphdr\<close>: bytes 2 and 3 are \<^verbatim>\<open>dest\<close>.\<close>

definition udp_dest :: "u8 list \<Rightarrow> nat \<Rightarrow> u16" where
  "udp_dest p udphdr = load_u16 p (udphdr + 2)"

subsection \<open>\<^verbatim>\<open>update_stat\<close>\<close>

text \<open>
  \<^verbatim>\<open>value = bpf_map_lookup_elem(&stats_map, &type); if (value)
  __sync_fetch_and_add(value, delta);\<close>
\<close>

definition update_stat :: "u32 \<Rightarrow> u64 \<Rightarrow> stats_map \<Rightarrow> stats_map" where
  "update_stat type delta st =
     (case st type of
        None \<Rightarrow> st
      | Some v \<Rightarrow> st(type \<mapsto> v + delta))"

subsection \<open>The parsers\<close>

text \<open>\<^verbatim>\<open>parse_ethhdr\<close>: \<^verbatim>\<open>*ethhdr = *data\<close>, failure when
  \<^verbatim>\<open>*data + sizeof(struct ethhdr) > *data_end\<close>.\<close>

definition parse_ethhdr :: "xdp_md \<Rightarrow> nat option" where
  "parse_ethhdr ctx =
     (let data = 0; data_end = length (frame ctx); ethhdr = data in
      if data + sizeof_ethhdr > data_end then None
      else Some ethhdr)"

text \<open>\<^verbatim>\<open>parse_iphdr\<close>: bounds, version, and the fragmentation test
  \<^verbatim>\<open>frag_off & bpf_htons(0x1FFF)\<close>.\<close>

definition parse_iphdr :: "u8 list \<Rightarrow> nat option" where
  "parse_iphdr p =
     (let data = 0; data_end = length p; iphdr = data + sizeof_ethhdr in
      if iphdr + sizeof_iphdr > data_end then None
      else if ip_version p iphdr \<noteq> 4 then None
      else if (ip_frag_off p iphdr AND bpf_htons 0x1FFF) \<noteq> 0 then None
      else Some iphdr)"

text \<open>\<^verbatim>\<open>parse_ipv6hdr\<close>.\<close>

definition parse_ipv6hdr :: "u8 list \<Rightarrow> nat option" where
  "parse_ipv6hdr p =
     (let data = 0; data_end = length p; ipv6hdr = data + sizeof_ethhdr in
      if ipv6hdr + sizeof_ipv6hdr > data_end then None
      else if ipv6_version p ipv6hdr \<noteq> 6 then None
      else Some ipv6hdr)"

text \<open>\<^verbatim>\<open>parse_udphdr_v4\<close>: \<^verbatim>\<open>*udphdr = (void *)iphdr + (iphdr->ihl * 4)\<close>.\<close>

definition parse_udphdr_v4 :: "u8 list \<Rightarrow> nat \<Rightarrow> nat option" where
  "parse_udphdr_v4 p iphdr =
     (let data_end = length p in
      if ip_protocol p iphdr \<noteq> IPPROTO_UDP then None
      else
        let udphdr = iphdr + unat (ip_ihl p iphdr) * 4 in
        if udphdr + sizeof_udphdr > data_end then None
        else Some udphdr)"

text \<open>\<^verbatim>\<open>parse_udphdr_v6\<close>: the UDP header directly follows the fixed IPv6 header.\<close>

definition parse_udphdr_v6 :: "u8 list \<Rightarrow> nat \<Rightarrow> nat option" where
  "parse_udphdr_v6 p ipv6hdr =
     (let data_end = length p in
      if ipv6_nexthdr p ipv6hdr \<noteq> IPPROTO_UDP then None
      else
        let udphdr = ipv6hdr + sizeof_ipv6hdr in
        if udphdr + sizeof_udphdr > data_end then None
        else Some udphdr)"

subsection \<open>\<^verbatim>\<open>is_wraith_port\<close>\<close>

text \<open>The \<^verbatim>\<open>__u16\<close> argument is promoted to \<^verbatim>\<open>int\<close> for the two comparisons.\<close>

definition is_wraith_port :: "u16 \<Rightarrow> bool" where
  "is_wraith_port dport \<longleftrightarrow> uint dport \<ge> WRAITH_PORT_MIN \<and> uint dport \<le> WRAITH_PORT_MAX"

subsection \<open>The entry point\<close>

text \<open>
  The statistics update and the redirect of lines 219-232, repeated verbatim at
  lines 253-266 of the source: count the frame, call the helper with the RX queue
  index and flags 0, and return \<^verbatim>\<open>XDP_REDIRECT\<close> or \<^verbatim>\<open>XDP_DROP\<close>.
\<close>

definition stat_and_redirect ::
  "redirect_helper \<Rightarrow> xskmap \<Rightarrow> xdp_md \<Rightarrow> stats_map \<Rightarrow> int \<times> stats_map" where
  "stat_and_redirect bpf_redirect_map xsks_map ctx st =
     (let data = 0; data_end = length (frame ctx);
          st1 = update_stat STAT_RX_PACKETS 1 st;
          st2 = update_stat STAT_RX_BYTES (of_nat (data_end - data)) st1;
          queue_id = rx_queue_index ctx;
          ret = bpf_redirect_map xsks_map queue_id 0
      in if ret = XDP_REDIRECT then (XDP_REDIRECT, update_stat STAT_REDIRECTED 1 st2)
         else (XDP_DROP, update_stat STAT_DROPPED 1 st2))"

text \<open>\<^verbatim>\<open>xdp_wraith_filter\<close>; every \<^verbatim>\<open>goto pass\<close> is \<open>(XDP_PASS, st)\<close>.\<close>

definition xdp_wraith_filter ::
  "redirect_helper \<Rightarrow> xskmap \<Rightarrow> xdp_md \<Rightarrow> stats_map \<Rightarrow> int \<times> stats_map" where
  "xdp_wraith_filter bpf_redirect_map xsks_map ctx st =
     (case parse_ethhdr ctx of
        None \<Rightarrow> (XDP_PASS, st)
      | Some eth \<Rightarrow>
          let p = frame ctx; eth_proto = bpf_ntohs (h_proto p eth) in
          if eth_proto = ETH_P_IP then
            (case parse_iphdr p of
               None \<Rightarrow> (XDP_PASS, st)
             | Some ip \<Rightarrow>
                 (case parse_udphdr_v4 p ip of
                    None \<Rightarrow> (XDP_PASS, st)
                  | Some udp \<Rightarrow>
                      let dport = bpf_ntohs (udp_dest p udp) in
                      if \<not> is_wraith_port dport then (XDP_PASS, st)
                      else stat_and_redirect bpf_redirect_map xsks_map ctx st))
          else if eth_proto = ETH_P_IPV6 then
            (case parse_ipv6hdr p of
               None \<Rightarrow> (XDP_PASS, st)
             | Some ipv6 \<Rightarrow>
                 (case parse_udphdr_v6 p ipv6 of
                    None \<Rightarrow> (XDP_PASS, st)
                  | Some udp \<Rightarrow>
                      let dport = bpf_ntohs (udp_dest p udp) in
                      if \<not> is_wraith_port dport then (XDP_PASS, st)
                      else stat_and_redirect bpf_redirect_map xsks_map ctx st))
          else (XDP_PASS, st))"

subsection \<open>Sequences of invocations\<close>

text \<open>
  One CPU runs the program once per received frame, each run starting from the
  statistics the previous run left. Between two runs the control plane may have
  changed the redirect table, so every invocation carries the table it sees.
  The result is the list of return codes and the final statistics.
\<close>

fun run_filter ::
  "redirect_helper \<Rightarrow> (xskmap \<times> xdp_md) list \<Rightarrow> stats_map \<Rightarrow> int list \<times> stats_map" where
  "run_filter bpf_redirect_map [] st = ([], st)"
| "run_filter bpf_redirect_map (call # calls) st =
     (case xdp_wraith_filter bpf_redirect_map (fst call) (snd call) st of
        (r, st1) \<Rightarrow>
          (case run_filter bpf_redirect_map calls st1 of
             (rs, st2) \<Rightarrow> (r # rs, st2)))"

section \<open>The frame as the protocols describe it\<close>

text \<open>
  The vocabulary of the specification: field values in network byte order, read at
  the offsets of an untagged Ethernet frame. These definitions do not mention the
  program; the lemmas of the next sections relate the program's tests to them.
\<close>

definition net16 :: "u8 list \<Rightarrow> nat \<Rightarrow> nat" where
  "net16 p off = 256 * unat (p ! off) + unat (p ! (off + 1))"

definition ether_type :: "u8 list \<Rightarrow> nat" where
  "ether_type p = net16 p 12"

definition ipv4_version :: "u8 list \<Rightarrow> nat" where
  "ipv4_version p = unat (p ! 14) div 16"

definition ipv4_ihl :: "u8 list \<Rightarrow> nat" where
  "ipv4_ihl p = unat (p ! 14) mod 16"

text \<open>
  Bytes 6 and 7 of the IPv4 header: one reserved bit, DF, MF, and the 13-bit
  fragment offset.
\<close>

definition ipv4_dont_fragment :: "u8 list \<Rightarrow> bool" where
  "ipv4_dont_fragment p \<longleftrightarrow> (net16 p 20 div 16384) mod 2 = 1"

definition ipv4_more_fragments :: "u8 list \<Rightarrow> bool" where
  "ipv4_more_fragments p \<longleftrightarrow> (net16 p 20 div 8192) mod 2 = 1"

definition ipv4_fragment_offset :: "u8 list \<Rightarrow> nat" where
  "ipv4_fragment_offset p = net16 p 20 mod 8192"

definition ipv4_protocol :: "u8 list \<Rightarrow> nat" where
  "ipv4_protocol p = unat (p ! 23)"

definition udp4_dest_port :: "u8 list \<Rightarrow> nat" where
  "udp4_dest_port p = net16 p (14 + 4 * ipv4_ihl p + 2)"

definition ipv6_version_field :: "u8 list \<Rightarrow> nat" where
  "ipv6_version_field p = unat (p ! 14) div 16"

definition ipv6_next_header :: "u8 list \<Rightarrow> nat" where
  "ipv6_next_header p = unat (p ! 20)"

definition udp6_dest_port :: "u8 list \<Rightarrow> nat" where
  "udp6_dest_port p = net16 p 56"

definition port_in_range :: "nat \<Rightarrow> bool" where
  "port_in_range port \<longleftrightarrow> 40000 \<le> port \<and> port \<le> 50000"

subsection \<open>The selection criteria\<close>

text \<open>
  What the program requires of a frame before it counts and redirects it, for each
  of the two network-layer protocols.
\<close>

definition selects_v4 :: "u8 list \<Rightarrow> bool" where
  "selects_v4 p \<longleftrightarrow>
     14 \<le> length p \<and> ether_type p = 0x0800 \<and> 34 \<le> length p \<and>
     ipv4_version p = 4 \<and> ipv4_fragment_offset p = 0 \<and> ipv4_protocol p = 17 \<and>
     14 + 4 * ipv4_ihl p + 8 \<le> length p \<and> port_in_range (udp4_dest_port p)"

definition selects_v6 :: "u8 list \<Rightarrow> bool" where
  "selects_v6 p \<longleftrightarrow>
     14 \<le> length p \<and> ether_type p = 0x86DD \<and> 54 \<le> length p \<and>
     ipv6_version_field p = 6 \<and> ipv6_next_header p = 17 \<and>
     62 \<le> length p \<and> port_in_range (udp6_dest_port p)"

definition wraith_match :: "u8 list \<Rightarrow> bool" where
  "wraith_match p \<longleftrightarrow> selects_v4 p \<or> selects_v6 p"

subsection \<open>The ways a frame can fail the selection\<close>

definition eth_truncated :: "u8 list \<Rightarrow> bool" where
  "eth_truncated p \<longleftrightarrow> length p < 14"

definition l3_unsupported :: "u8 list \<Rightarrow> bool" where
  "l3_unsupported p \<longleftrightarrow> ether_type p \<noteq> 0x0800 \<and> ether_type p \<noteq> 0x86DD"

text \<open>
  For IPv4 a fragmentation signal is the MF flag or a nonzero fragment offset.
\<close>

definition v4_fails :: "u8 list \<Rightarrow> bool" where
  "v4_fails p \<longleftrightarrow>
     length p < 34 \<or> ipv4_version p \<noteq> 4 \<or>
     ipv4_more_fragments p \<or> ipv4_fragment_offset p \<noteq> 0 \<or>
     ipv4_protocol p \<noteq> 17 \<or> length p < 14 + 4 * ipv4_ihl p + 8 \<or>
     \<not> port_in_range (udp4_dest_port p)"

definition v6_fails :: "u8 list \<Rightarrow> bool" where
  "v6_fails p \<longleftrightarrow>
     length p < 54 \<or> ipv6_version_field p \<noteq> 6 \<or> ipv6_next_header p \<noteq> 17 \<or>
     length p < 62 \<or> \<not> port_in_range (udp6_dest_port p)"

definition selection_fails :: "u8 list \<Rightarrow> bool" where
  "selection_fails p \<longleftrightarrow>
     eth_truncated p \<or>
     (14 \<le> length p \<and> l3_unsupported p) \<or>
     (14 \<le> length p \<and> ether_type p = 0x0800 \<and> v4_fails p) \<or>
     (14 \<le> length p \<and> ether_type p = 0x86DD \<and> v6_fails p)"

subsection \<open>Well-formed UDP datagrams\<close>

text \<open>
  An unfragmented IPv4 datagram carrying UDP, with a header length of at least
  five words, and an IPv6 packet whose next header is UDP; in both, all headers
  lie inside the frame.
\<close>

definition well_formed_udp4 :: "u8 list \<Rightarrow> bool" where
  "well_formed_udp4 p \<longleftrightarrow>
     ether_type p = 0x0800 \<and> ipv4_version p = 4 \<and> 5 \<le> ipv4_ihl p \<and>
     \<not> ipv4_more_fragments p \<and> ipv4_fragment_offset p = 0 \<and>
     ipv4_protocol p = 17 \<and> 14 + 4 * ipv4_ihl p + 8 \<le> length p"

definition well_formed_udp6 :: "u8 list \<Rightarrow> bool" where
  "well_formed_udp6 p \<longleftrightarrow>
     ether_type p = 0x86DD \<and> ipv6_version_field p = 6 \<and>
     ipv6_next_header p = 17 \<and> 62 \<le> length p"

definition udp_dest_port :: "u8 list \<Rightarrow> nat" where
  "udp_dest_port p = (if ether_type p = 0x0800 then udp4_dest_port p else udp6_dest_port p)"

section \<open>Example frames and environments\<close>

text \<open>
  The kernel helper as the examples use it: the redirect code when the table has
  an entry for the key, and the low bits of the flags (here \<^verbatim>\<open>XDP_ABORTED\<close>)
  when it has none.
\<close>

definition xsk_redirect :: redirect_helper where
  "xsk_redirect m key flags = (if m key = None then uint (flags AND 3) else XDP_REDIRECT)"

text \<open>A four-slot statistics array with every counter at \<open>v\<close>.\<close>

definition stats_all :: "u64 \<Rightarrow> stats_map" where
  "stats_all v = [STAT_RX_PACKETS \<mapsto> v, STAT_RX_BYTES \<mapsto> v, STAT_DROPPED \<mapsto> v,
                  STAT_REDIRECTED \<mapsto> v]"

definition eth_hdr :: "u8 \<Rightarrow> u8 \<Rightarrow> u8 list" where
  "eth_hdr t_hi t_lo = [0x02, 0, 0, 0, 0, 0x01, 0x02, 0, 0, 0, 0, 0x02, t_hi, t_lo]"

text \<open>
  A 20-byte IPv4 header with the given first byte (version and header length),
  total-length bytes, first fragment byte (flags and high offset bits) and protocol.
\<close>

definition ipv4_hdr :: "u8 \<Rightarrow> u8 \<Rightarrow> u8 \<Rightarrow> u8 \<Rightarrow> u8 \<Rightarrow> u8 list" where
  "ipv4_hdr vihl len_hi len_lo frag_hi proto =
     [vihl, 0, len_hi, len_lo, 0, 1, frag_hi, 0, 64, proto, 0, 0,
      10, 0, 0, 1, 10, 0, 0, 2]"

definition udp_hdr :: "u8 \<Rightarrow> u8 \<Rightarrow> u8 list" where
  "udp_hdr port_hi port_lo = [0x30, 0x39, port_hi, port_lo, 0, 8, 0, 0]"

definition ipv6_hdr :: "u8 \<Rightarrow> u8 list" where
  "ipv6_hdr nxt =
     [0x60, 0, 0, 0, 0, 8, nxt, 64,
      0xFE, 0x80, 0, 0, 0, 0, 0, 0, 0, 0, 0, 0, 0, 0, 0, 1,
      0xFE, 0x80, 0, 0, 0, 0, 0, 0, 0, 0, 0, 0, 0, 0, 0, 2]"

text \<open>A 42-byte IPv4/UDP frame with DF set and the given destination port bytes.\<close>

definition udp4_frame :: "u8 \<Rightarrow> u8 \<Rightarrow> u8 list" where
  "udp4_frame port_hi port_lo =
     eth_hdr 0x08 0x00 @ ipv4_hdr 0x45 0 28 0x40 17 @ udp_hdr port_hi port_lo"

text \<open>A 62-byte IPv6/UDP frame with the given destination port bytes.\<close>

definition udp6_frame :: "u8 \<Rightarrow> u8 \<Rightarrow> u8 list" where
  "udp6_frame port_hi port_lo = eth_hdr 0x86 0xDD @ ipv6_hdr 17 @ udp_hdr port_hi port_lo"

text \<open>
  The first fragment of a fragmented datagram: MF set, fragment offset 0,
  destination port 40000.
\<close>

definition mf_first_fragment :: "u8 list" where
  "mf_first_fragment = eth_hdr 0x08 0x00 @ ipv4_hdr 0x45 0 28 0x20 17 @ udp_hdr 0x9C 0x40"

text \<open>The same first fragment for destination port 50000.\<close>

definition mf_fragment_50000 :: "u8 list" where
  "mf_fragment_50000 = eth_hdr 0x08 0x00 @ ipv4_hdr 0x45 0 28 0x20 17 @ udp_hdr 0xC3 0x50"

text \<open>
  An IPv4 frame whose header-length field is 0 and whose total-length field is
  40000 (bytes \<open>0x9C 0x40\<close>); no UDP header follows the IP header.
\<close>

definition ihl0_frame :: "u8 list" where
  "ihl0_frame = eth_hdr 0x08 0x00 @ ipv4_hdr 0x40 0x9C 0x40 0x00 17"

text \<open>
  An IPv4 frame with one word of options (header length 6): the UDP header starts
  at byte 38. The four option bytes are \<open>0x9C 0x40 0x9C 0x40\<close>, the destination
  port is 8080.
\<close>

definition ihl6_frame :: "u8 list" where
  "ihl6_frame =
     eth_hdr 0x08 0x00 @ ipv4_hdr 0x46 0 32 0x40 17 @ [0x9C, 0x40, 0x9C, 0x40] @
     udp_hdr 0x1F 0x90"

text \<open>A TCP segment whose bytes at the UDP destination-port position read 40000.\<close>

definition tcp4_frame :: "u8 list" where
  "tcp4_frame = eth_hdr 0x08 0x00 @ ipv4_hdr 0x45 0 28 0x40 6 @ udp_hdr 0x9C 0x40"

text \<open>
  Two invocations on one CPU: the IPv4 frame on queue 3 while queue 3 is
  registered, then a 62-byte IPv6 frame for port 50000 on queue 0 while the
  redirect table is empty.
\<close>

definition two_calls :: "(xskmap \<times> xdp_md) list" where
  "two_calls =
     [([3 \<mapsto> 7], \<lparr>frame = udp4_frame 0x9C 0x40, rx_queue_index = 3\<rparr>),
      (Map.empty, \<lparr>frame = udp6_frame 0xC3 0x50, rx_queue_index = 0\<rparr>)]"

text \<open>
  The 60-byte frame of the specification's end-to-end example: the IPv4/UDP frame
  padded to the Ethernet minimum, with the given destination port bytes.
\<close>

definition padded_frame :: "u8 \<Rightarrow> u8 \<Rightarrow> u8 list" where
  "padded_frame port_hi port_lo = udp4_frame port_hi port_lo @ replicate 18 0"

section \<open>Byte order\<close>

text \<open>
  The program never uses a raw 16-bit load by itself: it either converts it with
  \<^verbatim>\<open>bpf_ntohs\<close> or masks it with a constant converted by \<^verbatim>\<open>bpf_htons\<close>. Both
  compositions are functions of the two frame bytes in network order.
\<close>

lemma bit_bytes16:
  "bit (bytes16 hi lo) n \<longleftrightarrow> (if n < 8 then bit lo n else bit hi (n - 8))"
  by (auto simp: bytes16_def bit_simps dest: bit_imp_le_length)

lemma swap_bytes16: "push_bit 8 (bytes16 a b) OR drop_bit 8 (bytes16 a b) = bytes16 b a"
  by (rule bit_word_eqI) (auto simp: bit_bytes16 bit_simps dest: bit_imp_le_length)

lemma ntohs_load_u16: "bpf_ntohs (load_u16 p off) = bytes16 (p ! off) (p ! (off + 1))"
  by (simp add: bpf_ntohs_def load_u16_def swap_bytes16)

lemma uint_ucast_u8_u16: "uint (ucast (b :: u8) :: u16) = uint b"
  by (simp add: uint_up_ucast is_up)

lemma uint_bytes16: "uint (bytes16 hi lo) = 256 * uint hi + uint lo"
proof -
  have c: "bytes16 hi lo = word_cat hi lo"
    by (rule bit_word_eqI) (auto simp: bit_bytes16 bit_word_cat_iff)
  have hb: "0 \<le> uint hi" "uint hi < 256" and lb: "0 \<le> uint lo" "uint lo < 256"
    using uint_bounded [of hi] uint_bounded [of lo] by simp_all
  have "uint (word_cat hi lo :: u16) = (uint hi * 256 + uint lo) mod 65536"
    by (simp add: word_cat_eq push_bit_eq_mult uint_word_ariths uint_ucast_u8_u16 mod_simps)
  also have "\<dots> = 256 * uint hi + uint lo"
    using hb lb by simp
  finally show ?thesis by (simp add: c)
qed

lemma unat_bytes16: "unat (bytes16 hi lo) = 256 * unat hi + unat lo"
proof -
  have "int (unat (bytes16 hi lo)) = int (256 * unat hi + unat lo)"
    by (simp add: uint_bytes16)
  then show ?thesis by (rule int_int_eq [THEN iffD1])
qed

lemma unat_ntohs_load: "unat (bpf_ntohs (load_u16 p off)) = net16 p off"
  by (simp add: ntohs_load_u16 unat_bytes16 net16_def)

text \<open>Masking a raw field with a converted constant is masking the converted field.\<close>

lemma swap_and: "(x AND bpf_htons m) = bpf_htons (bpf_ntohs x AND m)"
  by (rule bit_word_eqI) (auto simp: bpf_htons_def bpf_ntohs_def bit_simps dest: bit_imp_le_length)

lemma htons_eq_0: "bpf_htons x = 0 \<longleftrightarrow> x = 0"
proof
  assume h: "bpf_htons x = 0"
  show "x = 0"
  proof (rule bit_word_eqI)
    fix n assume n: "n < LENGTH(16)"
    show "bit x n = bit (0 :: u16) n"
    proof (cases "n < 8")
      case True
      then show ?thesis using arg_cong [OF h, of "\<lambda>w. bit w (n + 8)"]
        by (simp add: bpf_htons_def bit_simps)
    next
      case False
      then show ?thesis using n arg_cong [OF h, of "\<lambda>w. bit w (n - 8)"]
        by (simp add: bpf_htons_def bit_simps)
    qed
  qed
qed (simp add: bpf_htons_def)

section \<open>The program's tests, read as tests on protocol fields\<close>

lemma eth_proto_ip: "bpf_ntohs (h_proto p 0) = ETH_P_IP \<longleftrightarrow> ether_type p = 0x0800"
proof -
  have "bpf_ntohs (h_proto p 0) = ETH_P_IP \<longleftrightarrow> unat (bpf_ntohs (h_proto p 0)) = unat ETH_P_IP"
    by (simp add: word_unat_eq_iff)
  then show ?thesis by (simp add: h_proto_def unat_ntohs_load ether_type_def ETH_P_IP_def)
qed

lemma eth_proto_ipv6: "bpf_ntohs (h_proto p 0) = ETH_P_IPV6 \<longleftrightarrow> ether_type p = 0x86DD"
proof -
  have "bpf_ntohs (h_proto p 0) = ETH_P_IPV6 \<longleftrightarrow> unat (bpf_ntohs (h_proto p 0)) = unat ETH_P_IPV6"
    by (simp add: word_unat_eq_iff)
  then show ?thesis by (simp add: h_proto_def unat_ntohs_load ether_type_def ETH_P_IPV6_def)
qed

lemma is_wraith_port_net16:
  "is_wraith_port (bpf_ntohs (udp_dest p udp)) \<longleftrightarrow> port_in_range (net16 p (udp + 2))"
proof -
  have "uint (bpf_ntohs (udp_dest p udp)) = int (net16 p (udp + 2))"
    using unat_ntohs_load [of p "udp + 2"] by (simp add: udp_dest_def uint_nat)
  then show ?thesis
    by (simp add: is_wraith_port_def port_in_range_def WRAITH_PORT_MIN_def WRAITH_PORT_MAX_def)
qed

text \<open>
  The fragmentation test of \<^verbatim>\<open>parse_iphdr\<close> is zero exactly when the 13-bit
  fragment offset is zero: the mask \<open>0x1FFF\<close> covers the offset and neither flag.
\<close>

lemma frag_test_bytes:
  "(ip_frag_off p 14 AND bpf_htons 0x1FFF) = 0 \<longleftrightarrow> ipv4_fragment_offset p = 0"
proof -
  let ?w = "bytes16 (p ! 20) (p ! 21)"
  have "(ip_frag_off p 14 AND bpf_htons 0x1FFF) = 0 \<longleftrightarrow> (?w AND 0x1FFF) = 0"
    by (simp add: swap_and [of _ "0x1FFF"] htons_eq_0 ip_frag_off_def ntohs_load_u16)
  also have "?w AND 0x1FFF = take_bit 13 ?w"
    by (simp add: take_bit_eq_mask mask_eq_exp_minus_1)
  also have "take_bit 13 ?w = 0 \<longleftrightarrow> unat (take_bit 13 ?w) = 0"
    by (simp add: unat_eq_zero)
  also have "unat (take_bit 13 ?w) = net16 p 20 mod 8192"
    by (simp add: take_bit_eq_mod unat_mod unat_bytes16 net16_def)
  finally show ?thesis by (simp add: ipv4_fragment_offset_def)
qed

lemma ip_version_nat: "ip_version p 14 = 4 \<longleftrightarrow> ipv4_version p = 4"
proof -
  have "ip_version p 14 = 4 \<longleftrightarrow> unat (ip_version p 14) = unat (4 :: u8)"
    by (simp add: word_unat_eq_iff)
  then show ?thesis
    by (simp add: ip_version_def ipv4_version_def unat_drop_bit_eq drop_bit_eq_div unat_div)
qed

lemma ipv6_version_nat: "ipv6_version p 14 = 6 \<longleftrightarrow> ipv6_version_field p = 6"
proof -
  have "ipv6_version p 14 = 6 \<longleftrightarrow> unat (ipv6_version p 14) = unat (6 :: u8)"
    by (simp add: word_unat_eq_iff)
  then show ?thesis
    by (simp add: ipv6_version_def ipv6_version_field_def unat_drop_bit_eq drop_bit_eq_div unat_div)
qed

lemma ip_ihl_nat: "unat (ip_ihl p 14) = ipv4_ihl p"
proof -
  have "(p ! 14) AND 0x0F = take_bit 4 (p ! 14)"
    by (simp add: take_bit_eq_mask mask_eq_exp_minus_1)
  then show ?thesis
    by (simp add: ip_ihl_def ipv4_ihl_def take_bit_eq_mod unat_mod)
qed

lemma ip_protocol_nat: "ip_protocol p 14 = IPPROTO_UDP \<longleftrightarrow> ipv4_protocol p = 17"
proof -
  have "ip_protocol p 14 = IPPROTO_UDP \<longleftrightarrow> unat (ip_protocol p 14) = unat IPPROTO_UDP"
    by (simp add: word_unat_eq_iff)
  then show ?thesis by (simp add: ip_protocol_def ipv4_protocol_def IPPROTO_UDP_def)
qed

lemma ipv6_nexthdr_nat: "ipv6_nexthdr p 14 = IPPROTO_UDP \<longleftrightarrow> ipv6_next_header p = 17"
proof -
  have "ipv6_nexthdr p 14 = IPPROTO_UDP \<longleftrightarrow> unat (ipv6_nexthdr p 14) = unat IPPROTO_UDP"
    by (simp add: word_unat_eq_iff)
  then show ?thesis by (simp add: ipv6_nexthdr_def ipv6_next_header_def IPPROTO_UDP_def)
qed

subsection \<open>The parsers on an untagged frame\<close>

lemma parse_ethhdr_eq:
  "parse_ethhdr ctx = (if 14 \<le> length (frame ctx) then Some 0 else None)"
  by (simp add: parse_ethhdr_def sizeof_ethhdr_def)

lemma parse_iphdr_eq:
  "parse_iphdr p =
     (if 34 \<le> length p \<and> ipv4_version p = 4 \<and> ipv4_fragment_offset p = 0
      then Some 14 else None)"
  by (simp add: parse_iphdr_def sizeof_ethhdr_def sizeof_iphdr_def ip_version_nat
      frag_test_bytes)

lemma parse_ipv6hdr_eq:
  "parse_ipv6hdr p =
     (if 54 \<le> length p \<and> ipv6_version_field p = 6 then Some 14 else None)"
  by (simp add: parse_ipv6hdr_def sizeof_ethhdr_def sizeof_ipv6hdr_def ipv6_version_nat)

lemma parse_udphdr_v4_eq:
  "parse_udphdr_v4 p 14 =
     (if ipv4_protocol p = 17 \<and> 14 + 4 * ipv4_ihl p + 8 \<le> length p
      then Some (14 + 4 * ipv4_ihl p) else None)"
  by (simp add: parse_udphdr_v4_def sizeof_udphdr_def ip_protocol_nat ip_ihl_nat Let_def)

lemma parse_udphdr_v6_eq:
  "parse_udphdr_v6 p 14 =
     (if ipv6_next_header p = 17 \<and> 62 \<le> length p then Some 54 else None)"
  by (simp add: parse_udphdr_v6_def sizeof_udphdr_def sizeof_ipv6hdr_def ipv6_nexthdr_nat
      Let_def)

subsection \<open>The entry point in two cases\<close>

text \<open>
  Every \<^verbatim>\<open>goto pass\<close> of the entry point is taken exactly when the frame does not
  meet the selection criteria; otherwise control reaches the statistics update.
\<close>

lemma filter_cases:
  "xdp_wraith_filter h m ctx st =
     (if wraith_match (frame ctx) then stat_and_redirect h m ctx st else (XDP_PASS, st))"
proof (cases "14 \<le> length (frame ctx)")
  case False
  then show ?thesis
    by (simp add: xdp_wraith_filter_def parse_ethhdr_eq wraith_match_def selects_v4_def
        selects_v6_def)
next
  case len: True
  consider (v4) "ether_type (frame ctx) = 0x0800"
    | (v6) "ether_type (frame ctx) = 0x86DD"
    | (other) "ether_type (frame ctx) \<noteq> 0x0800" "ether_type (frame ctx) \<noteq> 0x86DD"
    by blast
  then show ?thesis
  proof cases
    case v4
    then have n6: "\<not> selects_v6 (frame ctx)" by (simp add: selects_v6_def)
    show ?thesis using len v4 n6
      by (simp add: xdp_wraith_filter_def parse_ethhdr_eq eth_proto_ip parse_iphdr_eq
          parse_udphdr_v4_eq is_wraith_port_net16 wraith_match_def selects_v4_def
          udp4_dest_port_def Let_def add.assoc)
  next
    case v6
    then have n4: "\<not> selects_v4 (frame ctx)" by (simp add: selects_v4_def)
    show ?thesis using len v6 n4
      by (simp add: xdp_wraith_filter_def parse_ethhdr_eq eth_proto_ip eth_proto_ipv6
          parse_ipv6hdr_eq parse_udphdr_v6_eq is_wraith_port_net16 wraith_match_def
          selects_v6_def udp6_dest_port_def Let_def)
  next
    case other
    then show ?thesis using len
      by (simp add: xdp_wraith_filter_def parse_ethhdr_eq eth_proto_ip eth_proto_ipv6
          wraith_match_def selects_v4_def selects_v6_def Let_def)
  qed
qed

text \<open>
  A frame that the program does not select fails the selection. The converse
  holds except for one kind of frame: an IPv4 frame that meets every criterion of
  the program and has the MF flag set.
\<close>

lemma not_match_fails: "\<not> wraith_match p \<Longrightarrow> selection_fails p"
  by (auto simp: selection_fails_def wraith_match_def selects_v4_def selects_v6_def
      eth_truncated_def l3_unsupported_def v4_fails_def v6_fails_def)

lemma selection_fails_iff:
  "selection_fails p \<longleftrightarrow> \<not> wraith_match p \<or> (selects_v4 p \<and> ipv4_more_fragments p)"
  by (auto simp: selection_fails_def wraith_match_def selects_v4_def selects_v6_def
      eth_truncated_def l3_unsupported_def v4_fails_def v6_fails_def)

section \<open>Statistics\<close>

lemmas stat_keys = STAT_RX_PACKETS_def STAT_RX_BYTES_def STAT_DROPPED_def STAT_REDIRECTED_def
lemmas xdp_codes = XDP_ABORTED_def XDP_DROP_def XDP_PASS_def XDP_TX_def XDP_REDIRECT_def

lemma update_stat_same: "update_stat k d st k = map_option (\<lambda>v. v + d) (st k)"
  by (simp add: update_stat_def split: option.split)

lemma update_stat_other: "k' \<noteq> k \<Longrightarrow> update_stat k d st k' = st k'"
  by (simp add: update_stat_def split: option.split)

lemma update_stat_apply:
  "update_stat k d st k' = (if k' = k then map_option (\<lambda>v. v + d) (st k) else st k')"
  by (simp add: update_stat_same update_stat_other)

lemma stat_and_redirect_code:
  "fst (stat_and_redirect h m ctx st) =
     (if h m (rx_queue_index ctx) 0 = XDP_REDIRECT then XDP_REDIRECT else XDP_DROP)"
  by (simp add: stat_and_redirect_def Let_def)

lemma stat_and_redirect_rx_packets:
  "snd (stat_and_redirect h m ctx st) STAT_RX_PACKETS =
     map_option (\<lambda>v. v + 1) (st STAT_RX_PACKETS)"
  by (simp add: stat_and_redirect_def Let_def update_stat_apply stat_keys)

lemma stat_and_redirect_rx_bytes:
  "snd (stat_and_redirect h m ctx st) STAT_RX_BYTES =
     map_option (\<lambda>v. v + of_nat (length (frame ctx))) (st STAT_RX_BYTES)"
  by (simp add: stat_and_redirect_def Let_def update_stat_apply stat_keys)

lemma stat_and_redirect_redirected:
  "snd (stat_and_redirect h m ctx st) STAT_REDIRECTED =
     (if h m (rx_queue_index ctx) 0 = XDP_REDIRECT
      then map_option (\<lambda>v. v + 1) (st STAT_REDIRECTED) else st STAT_REDIRECTED)"
  by (simp add: stat_and_redirect_def Let_def update_stat_apply stat_keys)

lemma stat_and_redirect_dropped:
  "snd (stat_and_redirect h m ctx st) STAT_DROPPED =
     (if h m (rx_queue_index ctx) 0 = XDP_REDIRECT
      then st STAT_DROPPED else map_option (\<lambda>v. v + 1) (st STAT_DROPPED))"
  by (simp add: stat_and_redirect_def Let_def update_stat_apply stat_keys)

lemma stat_and_redirect_unrelated:
  "k \<noteq> STAT_RX_PACKETS \<Longrightarrow> k \<noteq> STAT_RX_BYTES \<Longrightarrow> k \<noteq> STAT_DROPPED \<Longrightarrow>
   k \<noteq> STAT_REDIRECTED \<Longrightarrow> snd (stat_and_redirect h m ctx st) k = st k"
  by (simp add: stat_and_redirect_def Let_def update_stat_apply)

section \<open>The example frames\<close>

lemmas frame_defs = udp4_frame_def udp6_frame_def mf_first_fragment_def
  mf_fragment_50000_def ihl0_frame_def
  ihl6_frame_def tcp4_frame_def eth_hdr_def ipv4_hdr_def ipv6_hdr_def udp_hdr_def

lemmas field_defs = net16_def ether_type_def ipv4_version_def ipv4_ihl_def
  ipv4_dont_fragment_def ipv4_more_fragments_def ipv4_fragment_offset_def ipv4_protocol_def
  udp4_dest_port_def ipv6_version_field_def ipv6_next_header_def udp6_dest_port_def
  port_in_range_def udp_dest_port_def

lemmas selection_defs = wraith_match_def selects_v4_def selects_v6_def selection_fails_def
  eth_truncated_def l3_unsupported_def v4_fails_def v6_fails_def well_formed_udp4_def
  well_formed_udp6_def

text \<open>The definitions of the program, for running it on a concrete frame.\<close>

lemmas program_defs = xdp_wraith_filter_def stat_and_redirect_def parse_ethhdr_def
  parse_iphdr_def parse_ipv6hdr_def parse_udphdr_v4_def parse_udphdr_v6_def is_wraith_port_def
  h_proto_def ip_version_def ip_ihl_def ip_frag_off_def ip_protocol_def
  ipv6_version_def ipv6_nexthdr_def udp_dest_def load_u16_def bytes16_def bpf_htons_def
  bpf_ntohs_def sizeof_ethhdr_def sizeof_iphdr_def sizeof_ipv6hdr_def sizeof_udphdr_def
  ETH_P_IP_def ETH_P_IPV6_def IPPROTO_UDP_def WRAITH_PORT_MIN_def WRAITH_PORT_MAX_def

lemma length_example_frames:
  "length (udp4_frame a b) = 42" "length (udp6_frame a b) = 62"
  "length mf_first_fragment = 42" "length ihl0_frame = 34" "length ihl6_frame = 46"
  "length tcp4_frame = 42"
  by (simp_all add: frame_defs)

lemma match_udp4_40000: "wraith_match (udp4_frame 0x9C 0x40)"
  by (simp add: selection_defs field_defs frame_defs)

lemma match_udp6_50000: "wraith_match (udp6_frame 0xC3 0x50)"
  by (simp add: selection_defs field_defs frame_defs)

lemma xsk_redirect_hit: "m key = Some fd \<Longrightarrow> xsk_redirect m key 0 = XDP_REDIRECT"
  by (simp add: xsk_redirect_def)

lemma xsk_redirect_miss: "m key = None \<Longrightarrow> xsk_redirect m key 0 = XDP_ABORTED"
  by (simp add: xsk_redirect_def xdp_codes)

lemma stats_all_apply:
  "stats_all v STAT_RX_PACKETS = Some v" "stats_all v STAT_RX_BYTES = Some v"
  "stats_all v STAT_DROPPED = Some v" "stats_all v STAT_REDIRECTED = Some v"
  by (simp_all add: stats_all_def stat_keys)

section \<open>Fragmented IPv4 datagrams\<close>

text \<open>
  Claim C1: every IPv4 frame that carries a fragmentation signal (MF set, or a
  nonzero fragment offset) fails the IPv4 parse and is passed, whatever its port.

  The program does not do this for the MF flag. Its mask \<open>0x1FFF\<close> selects the 13
  offset bits only (\<open>frag_test_bytes\<close>), so the first fragment of a fragmented
  datagram, which has MF set and offset 0, parses successfully. The theorem runs
  the program on such a frame: UDP, destination port 40000, queue 0 registered.
  The IPv4 parse succeeds and the frame is counted and redirected.
\<close>

theorem C1_first_fragment_redirected:
  "ipv4_more_fragments mf_first_fragment \<and>
   parse_iphdr mf_first_fragment = Some 14 \<and>
   fst (xdp_wraith_filter xsk_redirect [0 \<mapsto> 1]
         \<lparr>frame = mf_first_fragment, rx_queue_index = 0\<rparr> (stats_all 0)) = XDP_REDIRECT \<and>
   snd (xdp_wraith_filter xsk_redirect [0 \<mapsto> 1]
         \<lparr>frame = mf_first_fragment, rx_queue_index = 0\<rparr> (stats_all 0)) STAT_RX_PACKETS = Some 1"
proof -
  have mf: "ipv4_more_fragments mf_first_fragment"
    by (simp add: field_defs frame_defs)
  have ip: "parse_iphdr mf_first_fragment = Some 14"
    by (simp add: program_defs frame_defs)
  have run: "xdp_wraith_filter xsk_redirect [0 \<mapsto> 1]
         \<lparr>frame = mf_first_fragment, rx_queue_index = 0\<rparr> (stats_all 0) =
      (XDP_REDIRECT, update_stat STAT_REDIRECTED 1
         (update_stat STAT_RX_BYTES 42 (update_stat STAT_RX_PACKETS 1 (stats_all 0))))"
    by (simp add: program_defs frame_defs xsk_redirect_def)
  have cnt: "update_stat STAT_REDIRECTED 1
      (update_stat STAT_RX_BYTES 42 (update_stat STAT_RX_PACKETS 1 (stats_all 0)))
      STAT_RX_PACKETS = Some 1"
    by (simp add: update_stat_apply stats_all_def stat_keys)
  show ?thesis
    using mf ip by (simp add: run cnt)
qed

text \<open>
  The DF flag, in contrast, is outside the mask, as it should be: the example
  frame with DF set is parsed.
\<close>

lemma df_not_masked:
  "ipv4_dont_fragment (udp4_frame 0x9C 0x40) \<and> \<not> ipv4_more_fragments (udp4_frame 0x9C 0x40) \<and>
   parse_iphdr (udp4_frame 0x9C 0x40) = Some 14"
  by (simp add: parse_iphdr_eq field_defs frame_defs)

text \<open>
  The part of the fragmentation test that the program does perform: an IPv4 frame
  with a nonzero fragment offset is passed, whatever else it holds.
\<close>

lemma fragment_offset_passes:
  assumes "ether_type (frame ctx) = 0x0800" and "ipv4_fragment_offset (frame ctx) \<noteq> 0"
  shows "xdp_wraith_filter h m ctx st = (XDP_PASS, st)"
  using assms by (simp add: filter_cases wraith_match_def selects_v4_def selects_v6_def)

section \<open>The port range\<close>

lemma well_formed_udp4_match:
  assumes "well_formed_udp4 p"
  shows "wraith_match p \<longleftrightarrow> port_in_range (udp_dest_port p)"
proof -
  from assms have e: "ether_type p = 0x0800" and i: "5 \<le> ipv4_ihl p"
    and l: "14 + 4 * ipv4_ihl p + 8 \<le> length p"
    and r: "ipv4_version p = 4" "ipv4_fragment_offset p = 0" "ipv4_protocol p = 17"
    by (simp_all add: well_formed_udp4_def)
  from i l have "34 \<le> length p" by simp
  with e l r show ?thesis
    by (simp add: wraith_match_def selects_v4_def selects_v6_def udp_dest_port_def)
qed

lemma well_formed_udp6_match:
  assumes "well_formed_udp6 p"
  shows "wraith_match p \<longleftrightarrow> port_in_range (udp_dest_port p)"
  using assms
  by (simp add: well_formed_udp6_def wraith_match_def selects_v4_def selects_v6_def
      udp_dest_port_def)

text \<open>
  Claim C2: for a well-formed UDP datagram over unfragmented IPv4 or over IPv6,
  with all headers inside the frame, the program returns \<^verbatim>\<open>XDP_REDIRECT\<close> or
  \<^verbatim>\<open>XDP_DROP\<close> if and only if the destination port, read in network byte order,
  lies in the closed range 40000 .. 50000, and passes the frame unchanged
  otherwise. In particular ports 39999 and 50001 are passed, and ports 40000 and
  50000 are not.
\<close>

theorem C2_port_range:
  assumes "well_formed_udp4 (frame ctx) \<or> well_formed_udp6 (frame ctx)"
  shows "((fst (xdp_wraith_filter h m ctx st) = XDP_REDIRECT \<or>
           fst (xdp_wraith_filter h m ctx st) = XDP_DROP) \<longleftrightarrow>
          (40000 \<le> udp_dest_port (frame ctx) \<and> udp_dest_port (frame ctx) \<le> 50000)) \<and>
         (\<not> (40000 \<le> udp_dest_port (frame ctx) \<and> udp_dest_port (frame ctx) \<le> 50000) \<longrightarrow>
            xdp_wraith_filter h m ctx st = (XDP_PASS, st)) \<and>
         (udp_dest_port (frame ctx) = 39999 \<longrightarrow> fst (xdp_wraith_filter h m ctx st) = XDP_PASS) \<and>
         (udp_dest_port (frame ctx) = 40000 \<longrightarrow> fst (xdp_wraith_filter h m ctx st) \<noteq> XDP_PASS) \<and>
         (udp_dest_port (frame ctx) = 50000 \<longrightarrow> fst (xdp_wraith_filter h m ctx st) \<noteq> XDP_PASS) \<and>
         (udp_dest_port (frame ctx) = 50001 \<longrightarrow> fst (xdp_wraith_filter h m ctx st) = XDP_PASS)"
proof -
  from assms have "wraith_match (frame ctx) \<longleftrightarrow> port_in_range (udp_dest_port (frame ctx))"
    using well_formed_udp4_match well_formed_udp6_match by blast
  then show ?thesis
    by (auto simp: filter_cases stat_and_redirect_code port_in_range_def xdp_codes)
qed

text \<open>The theorem at a 42-byte IPv4 frame for port 40000.\<close>

theorem C2_witness:
  "(well_formed_udp4 (udp4_frame 0x9C 0x40) \<or> well_formed_udp6 (udp4_frame 0x9C 0x40)) \<and>
   udp_dest_port (udp4_frame 0x9C 0x40) = 40000 \<and>
   (fst (xdp_wraith_filter xsk_redirect [3 \<mapsto> 7]
          \<lparr>frame = udp4_frame 0x9C 0x40, rx_queue_index = 3\<rparr> (stats_all 0)) = XDP_REDIRECT \<or>
    fst (xdp_wraith_filter xsk_redirect [3 \<mapsto> 7]
          \<lparr>frame = udp4_frame 0x9C 0x40, rx_queue_index = 3\<rparr> (stats_all 0)) = XDP_DROP)"
proof -
  have wf: "well_formed_udp4 (udp4_frame 0x9C 0x40)"
    by (simp add: selection_defs field_defs frame_defs)
  have port: "udp_dest_port (udp4_frame 0x9C 0x40) = 40000"
    by (simp add: field_defs frame_defs)
  show ?thesis
    using wf port
      C2_port_range [of "\<lparr>frame = udp4_frame 0x9C 0x40, rx_queue_index = 3\<rparr>"
        xsk_redirect "[3 \<mapsto> 7]" "stats_all 0"]
    by simp
qed

section \<open>The return code\<close>

text \<open>
  Claim C3: on every frame, redirect table, helper and statistics state the entry
  point returns one of the three codes \<^verbatim>\<open>XDP_PASS\<close>, \<^verbatim>\<open>XDP_DROP\<close> and
  \<^verbatim>\<open>XDP_REDIRECT\<close>, and the three codes are pairwise different, so exactly one
  disposition is returned. (The model is a total function: every path returns.)
\<close>

theorem C3_exactly_one_disposition:
  "(fst (xdp_wraith_filter h m ctx st) = XDP_PASS \<or>
    fst (xdp_wraith_filter h m ctx st) = XDP_DROP \<or>
    fst (xdp_wraith_filter h m ctx st) = XDP_REDIRECT) \<and>
   XDP_PASS \<noteq> XDP_DROP \<and> XDP_PASS \<noteq> XDP_REDIRECT \<and> XDP_DROP \<noteq> XDP_REDIRECT"
  by (simp add: filter_cases stat_and_redirect_code xdp_codes)

section \<open>The end-to-end examples of the specification\<close>

text \<open>
  A 60-byte IPv4/UDP frame for port 41000 on queue 3, with queue 3 registered, is
  redirected; \<open>rx_packets\<close> grows by 1, \<open>rx_bytes\<close> by 60 and \<open>redirected\<close> by 1.
  The same frame for port 8080 is passed and no counter changes.
\<close>

lemma end_to_end_redirect:
  "length (padded_frame 0xA0 0x28) = 60 \<and> udp_dest_port (padded_frame 0xA0 0x28) = 41000 \<and>
   xdp_wraith_filter xsk_redirect [3 \<mapsto> 7]
     \<lparr>frame = padded_frame 0xA0 0x28, rx_queue_index = 3\<rparr> (stats_all 0) =
   (XDP_REDIRECT,
    [STAT_RX_PACKETS \<mapsto> 1, STAT_RX_BYTES \<mapsto> 60, STAT_DROPPED \<mapsto> 0, STAT_REDIRECTED \<mapsto> 1])"
proof -
  have m: "wraith_match (padded_frame 0xA0 0x28)"
    by (simp add: selection_defs field_defs padded_frame_def frame_defs)
  have l: "length (padded_frame 0xA0 0x28) = 60"
    by (simp add: padded_frame_def frame_defs)
  have p: "udp_dest_port (padded_frame 0xA0 0x28) = 41000"
    by (simp add: field_defs padded_frame_def frame_defs)
  have "xdp_wraith_filter xsk_redirect [3 \<mapsto> 7]
     \<lparr>frame = padded_frame 0xA0 0x28, rx_queue_index = 3\<rparr> (stats_all 0) =
   (XDP_REDIRECT,
    [STAT_RX_PACKETS \<mapsto> 1, STAT_RX_BYTES \<mapsto> 60, STAT_DROPPED \<mapsto> 0, STAT_REDIRECTED \<mapsto> 1])"
    using m l
    by (auto simp: filter_cases stat_and_redirect_def xsk_redirect_hit update_stat_def
        stats_all_def stat_keys Let_def fun_eq_iff)
  with l p show ?thesis by blast
qed

lemma end_to_end_pass:
  "udp_dest_port (padded_frame 0x1F 0x90) = 8080 \<and>
   xdp_wraith_filter xsk_redirect [3 \<mapsto> 7]
     \<lparr>frame = padded_frame 0x1F 0x90, rx_queue_index = 3\<rparr> (stats_all 0) =
   (XDP_PASS, stats_all 0)"
  by (simp add: filter_cases selection_defs field_defs padded_frame_def frame_defs)

section \<open>Redirect failure\<close>

text \<open>
  Claim C4: when a frame meets the selection criteria and the redirect helper
  returns anything other than \<^verbatim>\<open>XDP_REDIRECT\<close> (the queue has no socket, or the
  redirect fails), the program returns \<^verbatim>\<open>XDP_DROP\<close>, adds 1 to the dropped
  counter and leaves the redirected counter as it was. (A slot holding \<open>v\<close> holds
  \<open>v + 1\<close> afterwards; a slot the lookup does not find stays absent.)
\<close>

theorem C4_redirect_failure_drops:
  assumes "wraith_match (frame ctx)"
    and "h m (rx_queue_index ctx) 0 \<noteq> XDP_REDIRECT"
  shows "fst (xdp_wraith_filter h m ctx st) = XDP_DROP \<and>
         snd (xdp_wraith_filter h m ctx st) STAT_DROPPED =
           map_option (\<lambda>v. v + 1) (st STAT_DROPPED) \<and>
         snd (xdp_wraith_filter h m ctx st) STAT_REDIRECTED = st STAT_REDIRECTED"
  using assms
  by (simp add: filter_cases stat_and_redirect_code stat_and_redirect_dropped
      stat_and_redirect_redirected)

text \<open>The redirect-table miss: the IPv4 frame on queue 3 with an empty table.\<close>

theorem C4_witness:
  "wraith_match (udp4_frame 0x9C 0x40) \<and>
   xsk_redirect Map.empty 3 0 \<noteq> XDP_REDIRECT \<and>
   fst (xdp_wraith_filter xsk_redirect Map.empty
         \<lparr>frame = udp4_frame 0x9C 0x40, rx_queue_index = 3\<rparr> (stats_all 0)) = XDP_DROP \<and>
   snd (xdp_wraith_filter xsk_redirect Map.empty
         \<lparr>frame = udp4_frame 0x9C 0x40, rx_queue_index = 3\<rparr> (stats_all 0)) STAT_DROPPED =
     Some 1 \<and>
   snd (xdp_wraith_filter xsk_redirect Map.empty
         \<lparr>frame = udp4_frame 0x9C 0x40, rx_queue_index = 3\<rparr> (stats_all 0)) STAT_REDIRECTED =
     Some 0"
proof -
  have miss: "xsk_redirect Map.empty 3 0 \<noteq> XDP_REDIRECT"
    by (simp add: xsk_redirect_miss xdp_codes)
  show ?thesis
    using match_udp4_40000 miss
      C4_redirect_failure_drops [of "\<lparr>frame = udp4_frame 0x9C 0x40, rx_queue_index = 3\<rparr>"
        xsk_redirect Map.empty "stats_all 0"]
    by (simp add: stats_all_apply)
qed

section \<open>Counting received frames\<close>

text \<open>
  Along a sequence of invocations that all meet the selection criteria, by
  induction on the sequence: each invocation adds 1 to the packet counter and
  the frame length to the byte counter, and 1 to exactly one of the redirected
  and dropped counters.
\<close>

lemma run_filter_counters:
  "(\<forall>c \<in> set calls. wraith_match (frame (snd c))) \<Longrightarrow>
   run_filter h calls st = (rs, st') \<Longrightarrow>
   st' STAT_RX_PACKETS = map_option (\<lambda>v. v + of_nat (length calls)) (st STAT_RX_PACKETS) \<and>
   st' STAT_RX_BYTES =
     map_option (\<lambda>v. v + of_nat (sum_list (map (\<lambda>c. length (frame (snd c))) calls)))
       (st STAT_RX_BYTES) \<and>
   count_list rs XDP_REDIRECT + count_list rs XDP_DROP = length calls \<and>
   st' STAT_REDIRECTED =
     map_option (\<lambda>v. v + of_nat (count_list rs XDP_REDIRECT)) (st STAT_REDIRECTED) \<and>
   st' STAT_DROPPED =
     map_option (\<lambda>v. v + of_nat (count_list rs XDP_DROP)) (st STAT_DROPPED)"
proof (induction calls arbitrary: st rs st')
  case Nil
  then show ?case by (simp add: option.map_ident)
next
  case (Cons c calls)
  obtain r st1 where step: "xdp_wraith_filter h (fst c) (snd c) st = (r, st1)"
    by (cases "xdp_wraith_filter h (fst c) (snd c) st")
  obtain rs' st2 where rest: "run_filter h calls st1 = (rs', st2)"
    by (cases "run_filter h calls st1")
  from Cons.prems(2) step rest have res: "rs = r # rs'" "st' = st2" by simp_all
  from Cons.prems(1) have mc: "wraith_match (frame (snd c))"
    and mcs: "\<forall>c \<in> set calls. wraith_match (frame (snd c))" by simp_all
  from step mc have sr: "stat_and_redirect h (fst c) (snd c) st = (r, st1)"
    by (simp add: filter_cases)
  have r: "r = (if h (fst c) (rx_queue_index (snd c)) 0 = XDP_REDIRECT then XDP_REDIRECT
                else XDP_DROP)"
    using stat_and_redirect_code [of h "fst c" "snd c" st] sr by simp
  have s1: "st1 STAT_RX_PACKETS = map_option (\<lambda>v. v + 1) (st STAT_RX_PACKETS)"
    using stat_and_redirect_rx_packets [of h "fst c" "snd c" st] sr by simp
  have s2: "st1 STAT_RX_BYTES =
      map_option (\<lambda>v. v + of_nat (length (frame (snd c)))) (st STAT_RX_BYTES)"
    using stat_and_redirect_rx_bytes [of h "fst c" "snd c" st] sr by simp
  have dist: "XDP_REDIRECT \<noteq> XDP_DROP" by (simp add: xdp_codes)
  have s3: "st1 STAT_REDIRECTED =
      (if r = XDP_REDIRECT then map_option (\<lambda>v. v + 1) (st STAT_REDIRECTED)
       else st STAT_REDIRECTED)"
    using stat_and_redirect_redirected [of h "fst c" "snd c" st] sr r dist by simp
  have s4: "st1 STAT_DROPPED =
      (if r = XDP_REDIRECT then st STAT_DROPPED
       else map_option (\<lambda>v. v + 1) (st STAT_DROPPED))"
    using stat_and_redirect_dropped [of h "fst c" "snd c" st] sr r dist by simp
  note IH = Cons.IH [OF mcs rest]
  have c1: "st' STAT_RX_PACKETS =
      map_option (\<lambda>v. v + of_nat (length (c # calls))) (st STAT_RX_PACKETS)"
    using IH by (simp add: res s1 option.map_comp comp_def add.assoc)
  have c2: "st' STAT_RX_BYTES =
      map_option (\<lambda>v. v + of_nat (sum_list (map (\<lambda>c. length (frame (snd c))) (c # calls))))
        (st STAT_RX_BYTES)"
    using IH by (simp add: res s2 option.map_comp comp_def add.assoc)
  have c3: "count_list rs XDP_REDIRECT + count_list rs XDP_DROP = length (c # calls)"
    using IH r dist by (simp add: res)
  have c4: "st' STAT_REDIRECTED =
      map_option (\<lambda>v. v + of_nat (count_list rs XDP_REDIRECT)) (st STAT_REDIRECTED)"
    using IH r dist by (simp add: res s3 option.map_comp comp_def add.assoc)
  have c5: "st' STAT_DROPPED =
      map_option (\<lambda>v. v + of_nat (count_list rs XDP_DROP)) (st STAT_DROPPED)"
    using IH r dist by (simp add: res s4 option.map_comp comp_def add.assoc)
  from c1 c2 c3 c4 c5 show ?case by blast
qed

text \<open>
  Claim C5: when a frame meets the selection criteria, the program adds exactly 1
  to \<open>rx_packets\<close> and exactly the frame length \<^verbatim>\<open>data_end - data\<close> to \<open>rx_bytes\<close>,
  and it does so before the redirect: whatever the helper returns, the final
  statistics are the redirected or dropped update applied to the state in which
  both counters are already incremented. Consequently, over \<open>N\<close> such invocations
  \<open>rx_packets\<close> grows by \<open>N\<close>, \<open>rx_bytes\<close> by the sum of the frame lengths, the
  number of redirected plus the number of dropped frames is \<open>N\<close>, and the two
  counters grow by these two numbers. (Counter arithmetic is that of \<^verbatim>\<open>__u64\<close>.)
\<close>

theorem C5_rx_counters:
  "(wraith_match (frame ctx) \<longrightarrow>
      snd (xdp_wraith_filter h m ctx st) STAT_RX_PACKETS =
        map_option (\<lambda>v. v + 1) (st STAT_RX_PACKETS) \<and>
      snd (xdp_wraith_filter h m ctx st) STAT_RX_BYTES =
        map_option (\<lambda>v. v + of_nat (length (frame ctx))) (st STAT_RX_BYTES) \<and>
      snd (xdp_wraith_filter h m ctx st) =
        update_stat
          (if h m (rx_queue_index ctx) 0 = XDP_REDIRECT then STAT_REDIRECTED else STAT_DROPPED) 1
          (update_stat STAT_RX_BYTES (of_nat (length (frame ctx)))
            (update_stat STAT_RX_PACKETS 1 st))) \<and>
   ((\<forall>c \<in> set calls. wraith_match (frame (snd c))) \<and> run_filter h calls st = (rs, st') \<longrightarrow>
      st' STAT_RX_PACKETS =
        map_option (\<lambda>v. v + of_nat (length calls)) (st STAT_RX_PACKETS) \<and>
      st' STAT_RX_BYTES =
        map_option (\<lambda>v. v + of_nat (sum_list (map (\<lambda>c. length (frame (snd c))) calls)))
          (st STAT_RX_BYTES) \<and>
      count_list rs XDP_REDIRECT + count_list rs XDP_DROP = length calls \<and>
      st' STAT_REDIRECTED =
        map_option (\<lambda>v. v + of_nat (count_list rs XDP_REDIRECT)) (st STAT_REDIRECTED) \<and>
      st' STAT_DROPPED =
        map_option (\<lambda>v. v + of_nat (count_list rs XDP_DROP)) (st STAT_DROPPED))"
proof (intro conjI impI)
  assume "wraith_match (frame ctx)"
  then show "snd (xdp_wraith_filter h m ctx st) STAT_RX_PACKETS =
      map_option (\<lambda>v. v + 1) (st STAT_RX_PACKETS)"
    and "snd (xdp_wraith_filter h m ctx st) STAT_RX_BYTES =
      map_option (\<lambda>v. v + of_nat (length (frame ctx))) (st STAT_RX_BYTES)"
    and "snd (xdp_wraith_filter h m ctx st) =
        update_stat
          (if h m (rx_queue_index ctx) 0 = XDP_REDIRECT then STAT_REDIRECTED else STAT_DROPPED) 1
          (update_stat STAT_RX_BYTES (of_nat (length (frame ctx)))
            (update_stat STAT_RX_PACKETS 1 st))"
    by (simp_all add: filter_cases stat_and_redirect_rx_packets stat_and_redirect_rx_bytes)
      (simp add: stat_and_redirect_def Let_def)
next
  assume a: "(\<forall>c \<in> set calls. wraith_match (frame (snd c))) \<and> run_filter h calls st = (rs, st')"
  note rc = run_filter_counters [OF conjunct1 [OF a] conjunct2 [OF a]]
  from rc show "st' STAT_RX_PACKETS =
      map_option (\<lambda>v. v + of_nat (length calls)) (st STAT_RX_PACKETS)" by blast
  from rc show "st' STAT_RX_BYTES =
      map_option (\<lambda>v. v + of_nat (sum_list (map (\<lambda>c. length (frame (snd c))) calls)))
        (st STAT_RX_BYTES)" by blast
  from rc show "count_list rs XDP_REDIRECT + count_list rs XDP_DROP = length calls" by blast
  from rc show "st' STAT_REDIRECTED =
      map_option (\<lambda>v. v + of_nat (count_list rs XDP_REDIRECT)) (st STAT_REDIRECTED)" by blast
  from rc show "st' STAT_DROPPED =
      map_option (\<lambda>v. v + of_nat (count_list rs XDP_DROP)) (st STAT_DROPPED)" by blast
qed

text \<open>The two example invocations: one redirected, one dropped, 42 + 62 bytes.\<close>

lemma fst_run_filter_Cons:
  "fst (run_filter h (c # cs) st) =
     fst (xdp_wraith_filter h (fst c) (snd c) st) #
     fst (run_filter h cs (snd (xdp_wraith_filter h (fst c) (snd c) st)))"
  by (simp split: prod.split)

lemma run_two_calls:
  "fst (run_filter xsk_redirect two_calls (stats_all 0)) = [XDP_REDIRECT, XDP_DROP]"
  by (simp add: two_calls_def fst_run_filter_Cons filter_cases match_udp4_40000
      match_udp6_50000 stat_and_redirect_code xsk_redirect_hit xsk_redirect_miss xdp_codes
      del: run_filter.simps(2))

theorem C5_witness:
  "wraith_match (udp4_frame 0x9C 0x40) \<and> wraith_match (udp6_frame 0xC3 0x50) \<and>
   map (frame \<circ> snd) two_calls = [udp4_frame 0x9C 0x40, udp6_frame 0xC3 0x50] \<and>
   snd (xdp_wraith_filter xsk_redirect Map.empty
         \<lparr>frame = udp4_frame 0x9C 0x40, rx_queue_index = 3\<rparr> (stats_all 0)) STAT_RX_PACKETS =
     Some 1 \<and>
   snd (xdp_wraith_filter xsk_redirect Map.empty
         \<lparr>frame = udp4_frame 0x9C 0x40, rx_queue_index = 3\<rparr> (stats_all 0)) STAT_RX_BYTES =
     Some 42 \<and>
   snd (run_filter xsk_redirect two_calls (stats_all 0)) STAT_RX_PACKETS = Some 2 \<and>
   snd (run_filter xsk_redirect two_calls (stats_all 0)) STAT_RX_BYTES = Some 104 \<and>
   snd (run_filter xsk_redirect two_calls (stats_all 0)) STAT_REDIRECTED = Some 1 \<and>
   snd (run_filter xsk_redirect two_calls (stats_all 0)) STAT_DROPPED = Some 1"
proof -
  let ?ctx = "\<lparr>frame = udp4_frame 0x9C 0x40, rx_queue_index = 3\<rparr>"
  let ?st' = "snd (run_filter xsk_redirect two_calls (stats_all 0))"
  have all: "\<forall>c \<in> set two_calls. wraith_match (frame (snd c))"
    by (simp add: two_calls_def match_udp4_40000 match_udp6_50000)
  have run: "run_filter xsk_redirect two_calls (stats_all 0) = ([XDP_REDIRECT, XDP_DROP], ?st')"
    using run_two_calls by (simp add: prod_eq_iff)
  have len: "length two_calls = 2"
    "sum_list (map (\<lambda>c. length (frame (snd c))) two_calls) = 104"
    by (simp_all add: two_calls_def length_example_frames)
  have cnt: "count_list [XDP_REDIRECT, XDP_DROP] XDP_REDIRECT = 1"
    "count_list [XDP_REDIRECT, XDP_DROP] XDP_DROP = 1"
    by (simp_all add: xdp_codes)
  note inst = C5_rx_counters [of ?ctx xsk_redirect Map.empty "stats_all 0" two_calls
      "[XDP_REDIRECT, XDP_DROP]" ?st']
  have m': "wraith_match (frame ?ctx)"
    using match_udp4_40000 by simp
  note single = mp [OF conjunct1 [OF inst] m']
  note one = conjunct1 [OF single] conjunct1 [OF conjunct2 [OF single]]
  note seq = mp [OF conjunct2 [OF inst] conjI [OF all run]]
  note many = conjunct1 [OF seq] conjunct1 [OF conjunct2 [OF seq]]
    conjunct1 [OF conjunct2 [OF conjunct2 [OF conjunct2 [OF seq]]]]
    conjunct2 [OF conjunct2 [OF conjunct2 [OF conjunct2 [OF seq]]]]
  from one have one': 
    "snd (xdp_wraith_filter xsk_redirect Map.empty ?ctx (stats_all 0)) STAT_RX_PACKETS = Some 1"
    "snd (xdp_wraith_filter xsk_redirect Map.empty ?ctx (stats_all 0)) STAT_RX_BYTES = Some 42"
    by (simp_all add: stats_all_apply length_example_frames)
  from many have many': "?st' STAT_RX_PACKETS = Some 2" "?st' STAT_RX_BYTES = Some 104"
    "?st' STAT_REDIRECTED = Some 1" "?st' STAT_DROPPED = Some 1"
    unfolding len cnt by (simp_all add: stats_all_apply)
  have frames: "map (frame \<circ> snd) two_calls = [udp4_frame 0x9C 0x40, udp6_frame 0xC3 0x50]"
    by (simp add: two_calls_def)
  from match_udp4_40000 match_udp6_50000 frames one' many' show ?thesis by blast
qed

section \<open>Frames that are not selected\<close>

text \<open>
  What the program does: a frame that fails the selection for any cause other
  than the MF flag alone is passed, and the statistics map is unchanged.
\<close>

lemma failure_passes_unless_mf_only:
  assumes "selection_fails (frame ctx)"
    and "\<not> (selects_v4 (frame ctx) \<and> ipv4_more_fragments (frame ctx))"
  shows "xdp_wraith_filter h m ctx st = (XDP_PASS, st)"
  using assms by (simp add: filter_cases selection_fails_iff)

text \<open>
  Each such way of failing, at an example: the empty frame, ARP, an IPv4 header
  cut after four bytes, version nibble 6 under ether-type IPv4, fragment offset
  256, a UDP header cut after three bytes, ports 8080, 39999 and 50001, a TCP
  segment, TCP over IPv6, and port 8080 over IPv6. The last two lines are the
  fragments with MF set and offset 0.
\<close>

lemma fails_short_frame: "length p < 14 \<Longrightarrow> selection_fails p"
  by (simp add: selection_fails_def eth_truncated_def)

lemma fails_examples:
  "selection_fails []"
  "selection_fails (eth_hdr 0x08 0x06 @ replicate 28 0)"
  "selection_fails (eth_hdr 0x08 0x00 @ [0x45, 0, 0, 28])"
  "selection_fails (eth_hdr 0x08 0x00 @ ipv4_hdr 0x65 0 28 0x40 17 @ udp_hdr 0x9C 0x40)"
  "selection_fails (eth_hdr 0x08 0x00 @ ipv4_hdr 0x45 0 28 0x01 17 @ udp_hdr 0x9C 0x40)"
  "selection_fails (eth_hdr 0x08 0x00 @ ipv4_hdr 0x45 0 28 0x40 17 @ [0x30, 0x39, 0x9C])"
  "selection_fails (udp4_frame 0x1F 0x90)"
  "selection_fails (udp4_frame 0x9C 0x3F)"
  "selection_fails (udp4_frame 0xC3 0x51)"
  "selection_fails tcp4_frame"
  "selection_fails (eth_hdr 0x86 0xDD @ ipv6_hdr 6 @ udp_hdr 0x9C 0x40)"
  "selection_fails (udp6_frame 0x1F 0x90)"
  "selection_fails mf_first_fragment"
  "selection_fails mf_fragment_50000"
  by (simp_all add: selection_defs field_defs frame_defs)

lemma tcp_segment_passes:
  "xdp_wraith_filter xsk_redirect [3 \<mapsto> 7] \<lparr>frame = tcp4_frame, rx_queue_index = 3\<rparr>
     (stats_all 0) = (XDP_PASS, stats_all 0)"
  by (simp add: filter_cases selection_defs field_defs frame_defs)

text \<open>
  Claim C6: on every frame on which a parse step or the port check fails, that
  is a frame shorter than an Ethernet header, an ether-type other than IPv4 and
  IPv6, a truncated IPv4, IPv6 or UDP header, a wrong version nibble, IPv4
  fragmentation, a protocol or next header other than UDP, or a destination port
  outside the range, the program returns \<^verbatim>\<open>XDP_PASS\<close> and no counter changes.

  The program does not do this for an IPv4 fragment whose only fragmentation
  signal is the MF flag: the mask \<open>0x1FFF\<close> of \<^verbatim>\<open>parse_iphdr\<close> leaves MF out, the
  defect shown under C1. The theorem runs the program on the first fragment of a
  datagram for port 50000, on queue 0 with an empty redirect table. The frame
  fails the selection, by fragmentation and by nothing else, yet the IPv4 parse
  succeeds, the program returns \<^verbatim>\<open>XDP_DROP\<close>, and three counters change.
\<close>

theorem C6_mf_fragment_counted_and_dropped:
  "selection_fails mf_fragment_50000 \<and>
   ipv4_more_fragments mf_fragment_50000 \<and>
   ipv4_fragment_offset mf_fragment_50000 = 0 \<and>
   selects_v4 mf_fragment_50000 \<and>
   parse_iphdr mf_fragment_50000 = Some 14 \<and>
   xdp_wraith_filter xsk_redirect Map.empty
     \<lparr>frame = mf_fragment_50000, rx_queue_index = 0\<rparr> (stats_all 0) =
   (XDP_DROP,
    [STAT_RX_PACKETS \<mapsto> 1, STAT_RX_BYTES \<mapsto> 42, STAT_DROPPED \<mapsto> 1, STAT_REDIRECTED \<mapsto> 0]) \<and>
   XDP_DROP \<noteq> XDP_PASS \<and>
   [STAT_RX_PACKETS \<mapsto> 1, STAT_RX_BYTES \<mapsto> 42, STAT_DROPPED \<mapsto> 1, STAT_REDIRECTED \<mapsto> 0]
     STAT_DROPPED \<noteq> stats_all 0 STAT_DROPPED"
proof -
  have fails: "selection_fails mf_fragment_50000"
    by (simp add: selection_defs field_defs frame_defs)
  have mf: "ipv4_more_fragments mf_fragment_50000"
    "ipv4_fragment_offset mf_fragment_50000 = 0"
    by (simp_all add: field_defs frame_defs)
  have sel: "selects_v4 mf_fragment_50000"
    by (simp add: selection_defs field_defs frame_defs)
  have ip: "parse_iphdr mf_fragment_50000 = Some 14"
    by (simp add: program_defs frame_defs)
  have run: "xdp_wraith_filter xsk_redirect Map.empty
         \<lparr>frame = mf_fragment_50000, rx_queue_index = 0\<rparr> (stats_all 0) =
      (XDP_DROP, update_stat STAT_DROPPED 1
         (update_stat STAT_RX_BYTES 42 (update_stat STAT_RX_PACKETS 1 (stats_all 0))))"
    by (simp add: program_defs frame_defs xsk_redirect_def xdp_codes)
  have st: "update_stat STAT_DROPPED 1
      (update_stat STAT_RX_BYTES 42 (update_stat STAT_RX_PACKETS 1 (stats_all 0))) =
      [STAT_RX_PACKETS \<mapsto> 1, STAT_RX_BYTES \<mapsto> 42, STAT_DROPPED \<mapsto> 1, STAT_REDIRECTED \<mapsto> 0]"
    by (auto simp: update_stat_def stats_all_def stat_keys fun_eq_iff)
  have code: "XDP_DROP \<noteq> XDP_PASS"
    by (simp add: xdp_codes)
  have changed:
    "[STAT_RX_PACKETS \<mapsto> 1, STAT_RX_BYTES \<mapsto> 42, STAT_DROPPED \<mapsto> (1 :: u64),
      STAT_REDIRECTED \<mapsto> 0] STAT_DROPPED \<noteq> stats_all 0 STAT_DROPPED"
    by (simp add: stats_all_def stat_keys)
  from fails mf sel ip code changed show ?thesis
    by (simp add: run st)
qed

section \<open>The position of the UDP header behind IPv4\<close>

lemma unat_ip_ihl: "unat (ip_ihl p ip) = unat (p ! ip) mod 16"
proof -
  have "(p ! ip) AND 0x0F = take_bit 4 (p ! ip)"
    by (simp add: take_bit_eq_mask mask_eq_exp_minus_1)
  then show ?thesis
    by (simp add: ip_ihl_def take_bit_eq_mod unat_mod)
qed

lemma ip_protocol_udp: "ip_protocol p ip = IPPROTO_UDP \<longleftrightarrow> unat (p ! (ip + 9)) = 17"
proof -
  have "ip_protocol p ip = IPPROTO_UDP \<longleftrightarrow> unat (ip_protocol p ip) = unat IPPROTO_UDP"
    by (simp add: word_unat_eq_iff)
  then show ?thesis by (simp add: ip_protocol_def IPPROTO_UDP_def)
qed

text \<open>
  Claim C7: \<^verbatim>\<open>parse_udphdr_v4\<close> succeeds exactly when the IPv4 protocol byte is 17
  (UDP) and eight bytes remain from the offset \<open>ip + 4 * ihl\<close>, where \<open>ihl\<close> is the
  header-length nibble, and then the UDP header is at exactly that offset; in
  the entry point the IPv4 header is at offset 14, and a frame on which this
  parse fails (wrong protocol, or too short behind that offset) is passed with
  the statistics unchanged.
\<close>

theorem C7_udp_header_offset:
  "parse_udphdr_v4 p ip =
     (if unat (p ! (ip + 9)) = 17 \<and> ip + 4 * (unat (p ! ip) mod 16) + 8 \<le> length p
      then Some (ip + 4 * (unat (p ! ip) mod 16)) else None) \<and>
   (parse_iphdr p = Some ip \<and> parse_udphdr_v4 p ip = Some udp \<longrightarrow>
      ip = 14 \<and> ipv4_protocol p = 17 \<and> udp = 14 + 4 * ipv4_ihl p \<and> udp + 8 \<le> length p) \<and>
   (bpf_ntohs (h_proto (frame ctx) 0) = ETH_P_IP \<and> parse_iphdr (frame ctx) = Some ip \<and>
    parse_udphdr_v4 (frame ctx) ip = None \<longrightarrow>
      xdp_wraith_filter h m ctx st = (XDP_PASS, st))"
proof (intro conjI impI)
  show "parse_udphdr_v4 p ip =
     (if unat (p ! (ip + 9)) = 17 \<and> ip + 4 * (unat (p ! ip) mod 16) + 8 \<le> length p
      then Some (ip + 4 * (unat (p ! ip) mod 16)) else None)"
    by (simp add: parse_udphdr_v4_def sizeof_udphdr_def ip_protocol_udp unat_ip_ihl Let_def)
next
  assume a: "parse_iphdr p = Some ip \<and> parse_udphdr_v4 p ip = Some udp"
  then have ip: "ip = 14" by (simp add: parse_iphdr_eq split: if_splits)
  from a ip have u: "parse_udphdr_v4 p 14 = Some udp" by simp
  from u show "ipv4_protocol p = 17" "udp = 14 + 4 * ipv4_ihl p" "udp + 8 \<le> length p"
    by (simp_all add: parse_udphdr_v4_eq split: if_splits)
  from ip show "ip = 14" .
next
  assume a: "bpf_ntohs (h_proto (frame ctx) 0) = ETH_P_IP \<and> parse_iphdr (frame ctx) = Some ip \<and>
    parse_udphdr_v4 (frame ctx) ip = None"
  show "xdp_wraith_filter h m ctx st = (XDP_PASS, st)"
  proof (cases "14 \<le> length (frame ctx)")
    case True
    with a show ?thesis
      by (simp add: xdp_wraith_filter_def parse_ethhdr_eq Let_def)
  next
    case False
    then show ?thesis
      by (simp add: xdp_wraith_filter_def parse_ethhdr_eq)
  qed
qed

text \<open>
  With one word of IPv4 options the UDP header is found at byte 38, not 34; a TCP
  segment fails the parse and is passed.
\<close>

theorem C7_witness:
  "parse_iphdr ihl6_frame = Some 14 \<and> parse_udphdr_v4 ihl6_frame 14 = Some 38 \<and>
   ipv4_ihl ihl6_frame = 6 \<and>
   bpf_ntohs (h_proto tcp4_frame 0) = ETH_P_IP \<and> parse_iphdr tcp4_frame = Some 14 \<and>
   parse_udphdr_v4 tcp4_frame 14 = None \<and>
   xdp_wraith_filter xsk_redirect [3 \<mapsto> 7] \<lparr>frame = tcp4_frame, rx_queue_index = 3\<rparr>
     (stats_all 0) = (XDP_PASS, stats_all 0)"
proof -
  have a: "parse_iphdr ihl6_frame = Some 14" "parse_iphdr tcp4_frame = Some 14"
    by (simp_all add: parse_iphdr_eq field_defs frame_defs)
  have b: "parse_udphdr_v4 ihl6_frame 14 = Some 38" "parse_udphdr_v4 tcp4_frame 14 = None"
    by (simp_all add: parse_udphdr_v4_eq field_defs frame_defs)
  have c: "bpf_ntohs (h_proto tcp4_frame 0) = ETH_P_IP"
    by (simp add: eth_proto_ip field_defs frame_defs)
  show ?thesis
    using a b c
      C7_udp_header_offset [of ihl6_frame 14 38 "\<lparr>frame = tcp4_frame, rx_queue_index = 3\<rparr>"
        xsk_redirect "[3 \<mapsto> 7]" "stats_all 0"]
    by simp
qed

text \<open>
  The frame with options has the bytes of port 40000 where the destination port
  would be behind a 20-byte header, and port 8080 in its UDP header: it is passed.
\<close>

lemma ihl6_honoured:
  "net16 ihl6_frame (14 + 20 + 2) = 40000 \<and> udp4_dest_port ihl6_frame = 8080 \<and>
   xdp_wraith_filter xsk_redirect [3 \<mapsto> 7] \<lparr>frame = ihl6_frame, rx_queue_index = 3\<rparr>
     (stats_all 0) = (XDP_PASS, stats_all 0)"
  by (simp add: filter_cases selection_defs field_defs frame_defs)

section \<open>Determinism\<close>

text \<open>
  Claim C8: two invocations on the same frame bytes, for which the redirect call
  gives the same result, return the same code, whatever the statistics hold at
  either invocation. In particular the same frame, queue, table and helper give
  the same code.
\<close>

theorem C8_deterministic:
  assumes "frame ctx1 = frame ctx2"
    and "h1 m1 (rx_queue_index ctx1) 0 = h2 m2 (rx_queue_index ctx2) 0"
  shows "fst (xdp_wraith_filter h1 m1 ctx1 st1) = fst (xdp_wraith_filter h2 m2 ctx2 st2)"
  using assms by (simp add: filter_cases stat_and_redirect_code)

text \<open>
  The IPv4 frame on queue 3 and on queue 5, each registered in its table, with
  different statistics.
\<close>

theorem C8_witness:
  "frame \<lparr>frame = udp4_frame 0x9C 0x40, rx_queue_index = 3\<rparr> =
     frame \<lparr>frame = udp4_frame 0x9C 0x40, rx_queue_index = 5\<rparr> \<and>
   xsk_redirect [3 \<mapsto> 7] 3 0 = xsk_redirect [5 \<mapsto> 9] 5 0 \<and>
   fst (xdp_wraith_filter xsk_redirect [3 \<mapsto> 7]
         \<lparr>frame = udp4_frame 0x9C 0x40, rx_queue_index = 3\<rparr> (stats_all 0)) =
   fst (xdp_wraith_filter xsk_redirect [5 \<mapsto> 9]
         \<lparr>frame = udp4_frame 0x9C 0x40, rx_queue_index = 5\<rparr> (stats_all 1000))"
proof -
  have r: "xsk_redirect [3 \<mapsto> 7] 3 0 = xsk_redirect [5 \<mapsto> 9] 5 0"
    by (simp add: xsk_redirect_hit)
  show ?thesis
    using r C8_deterministic [of "\<lparr>frame = udp4_frame 0x9C 0x40, rx_queue_index = 3\<rparr>"
        "\<lparr>frame = udp4_frame 0x9C 0x40, rx_queue_index = 5\<rparr>"
        xsk_redirect "[3 \<mapsto> 7]" xsk_redirect "[5 \<mapsto> 9]" "stats_all 0" "stats_all 1000"]
    by simp
qed

section \<open>Counters only grow, up to wrap-around\<close>

text \<open>Every slot is changed by adding 0, 1 or the frame length, if it exists.\<close>

lemma filter_slot:
  "\<exists>d. snd (xdp_wraith_filter h m ctx st) k = map_option (\<lambda>v. v + d) (st k) \<and>
       (d = 0 \<or> d = 1 \<or> d = of_nat (length (frame ctx)))"
proof (cases "wraith_match (frame ctx)")
  case False
  then have "snd (xdp_wraith_filter h m ctx st) k = map_option (\<lambda>v. v + 0) (st k)"
    by (simp add: filter_cases option.map_ident)
  then show ?thesis by blast
next
  case True
  then have f: "xdp_wraith_filter h m ctx st = stat_and_redirect h m ctx st"
    by (simp add: filter_cases)
  consider (pk) "k = STAT_RX_PACKETS" | (bytes) "k = STAT_RX_BYTES" | (dr) "k = STAT_DROPPED"
    | (re) "k = STAT_REDIRECTED"
    | (no) "k \<noteq> STAT_RX_PACKETS" "k \<noteq> STAT_RX_BYTES" "k \<noteq> STAT_DROPPED" "k \<noteq> STAT_REDIRECTED"
    by blast
  then show ?thesis
  proof cases
    case pk
    then have "snd (xdp_wraith_filter h m ctx st) k = map_option (\<lambda>v. v + 1) (st k)"
      by (simp add: f stat_and_redirect_rx_packets)
    then show ?thesis by blast
  next
    case bytes
    then have "snd (xdp_wraith_filter h m ctx st) k =
        map_option (\<lambda>v. v + of_nat (length (frame ctx))) (st k)"
      by (simp add: f stat_and_redirect_rx_bytes)
    then show ?thesis by blast
  next
    case dr
    show ?thesis
    proof (cases "h m (rx_queue_index ctx) 0 = XDP_REDIRECT")
      case True
      with dr have "snd (xdp_wraith_filter h m ctx st) k = map_option (\<lambda>v. v + 0) (st k)"
        by (simp add: f stat_and_redirect_dropped option.map_ident)
      then show ?thesis by blast
    next
      case False
      with dr have "snd (xdp_wraith_filter h m ctx st) k = map_option (\<lambda>v. v + 1) (st k)"
        by (simp add: f stat_and_redirect_dropped)
      then show ?thesis by blast
    qed
  next
    case re
    show ?thesis
    proof (cases "h m (rx_queue_index ctx) 0 = XDP_REDIRECT")
      case True
      with re have "snd (xdp_wraith_filter h m ctx st) k = map_option (\<lambda>v. v + 1) (st k)"
        by (simp add: f stat_and_redirect_redirected)
      then show ?thesis by blast
    next
      case False
      with re have "snd (xdp_wraith_filter h m ctx st) k = map_option (\<lambda>v. v + 0) (st k)"
        by (simp add: f stat_and_redirect_redirected option.map_ident)
      then show ?thesis by blast
    qed
  next
    case no
    then have "snd (xdp_wraith_filter h m ctx st) k = map_option (\<lambda>v. v + 0) (st k)"
      by (simp add: f stat_and_redirect_unrelated option.map_ident)
    then show ?thesis by blast
  qed
qed

lemma u64_add_no_wrap: "unat (v :: u64) + unat d < 2 ^ 64 \<Longrightarrow> v \<le> v + d"
  using no_olen_add_nat [of v d] by simp

text \<open>
  Claim C9 says that every counter is monotone non-decreasing. As stated this
  fails: the addition is that of \<^verbatim>\<open>__u64\<close>, so a packet counter at
  \<open>2^64 - 1\<close> is 0 after one selected frame.
\<close>

theorem C9_counter_wraps:
  "stats_all 0xFFFFFFFFFFFFFFFF STAT_RX_PACKETS = Some 0xFFFFFFFFFFFFFFFF \<and>
   snd (xdp_wraith_filter xsk_redirect [3 \<mapsto> 7]
         \<lparr>frame = udp4_frame 0x9C 0x40, rx_queue_index = 3\<rparr>
         (stats_all 0xFFFFFFFFFFFFFFFF)) STAT_RX_PACKETS = Some 0 \<and>
   (0 :: u64) < 0xFFFFFFFFFFFFFFFF"
  by (simp add: filter_cases match_udp4_40000 stat_and_redirect_rx_packets stats_all_apply)

text \<open>
  Claim C9, amended: the only change the program makes to a counter slot is to add
  1 or the frame length modulo \<open>2^64\<close> (or nothing); the counter therefore does
  not decrease unless this 64-bit addition wraps around, and no path decrements or
  resets it. A failed slot lookup leaves the whole map unchanged, in
  \<^verbatim>\<open>update_stat\<close> and in the entry point.
\<close>

theorem C9_counters_add_only:
  "(st k = None \<longrightarrow> update_stat k d st = st) \<and>
   (st k = Some v \<longrightarrow> update_stat k d st = st(k \<mapsto> v + d)) \<and>
   (st k = None \<longrightarrow> snd (xdp_wraith_filter h m ctx st) k = None) \<and>
   (st k = Some v \<longrightarrow>
      (\<exists>a. snd (xdp_wraith_filter h m ctx st) k = Some (v + a) \<and>
           (a = 0 \<or> a = 1 \<or> a = of_nat (length (frame ctx))) \<and>
           (unat v + unat a < 2 ^ 64 \<longrightarrow> v \<le> v + a)))"
proof (intro conjI impI)
  assume "st k = None"
  then show "update_stat k d st = st" by (simp add: update_stat_def)
next
  assume "st k = Some v"
  then show "update_stat k d st = st(k \<mapsto> v + d)" by (simp add: update_stat_def)
next
  assume "st k = None"
  with filter_slot [of h m ctx st k]
  show "snd (xdp_wraith_filter h m ctx st) k = None" by auto
next
  assume s: "st k = Some v"
  from filter_slot [of h m ctx st k] obtain a
    where a: "snd (xdp_wraith_filter h m ctx st) k = map_option (\<lambda>v. v + a) (st k)"
      "a = 0 \<or> a = 1 \<or> a = of_nat (length (frame ctx))" by blast
  from a(1) s have "snd (xdp_wraith_filter h m ctx st) k = Some (v + a)" by simp
  with a(2) u64_add_no_wrap [of v a]
  show "\<exists>a. snd (xdp_wraith_filter h m ctx st) k = Some (v + a) \<and>
           (a = 0 \<or> a = 1 \<or> a = of_nat (length (frame ctx))) \<and>
           (unat v + unat a < 2 ^ 64 \<longrightarrow> v \<le> v + a)" by blast
qed

text \<open>A byte counter at 5, and the empty map, under the 42-byte IPv4 frame.\<close>

theorem C9_witness:
  "stats_all 5 STAT_RX_BYTES = Some 5 \<and>
   update_stat STAT_RX_BYTES 42 (stats_all 5) = (stats_all 5)(STAT_RX_BYTES \<mapsto> 47) \<and>
   Map.empty STAT_RX_BYTES = (None :: u64 option) \<and>
   update_stat STAT_RX_BYTES 42 Map.empty = Map.empty \<and>
   snd (xdp_wraith_filter xsk_redirect [3 \<mapsto> 7]
         \<lparr>frame = udp4_frame 0x9C 0x40, rx_queue_index = 3\<rparr> Map.empty) STAT_RX_BYTES = None \<and>
   (\<exists>a. snd (xdp_wraith_filter xsk_redirect [3 \<mapsto> 7]
            \<lparr>frame = udp4_frame 0x9C 0x40, rx_queue_index = 3\<rparr> (stats_all 5)) STAT_RX_BYTES =
          Some (5 + a) \<and>
        unat (5 :: u64) + unat a < 2 ^ 64 \<and> 5 \<le> 5 + a)"
proof -
  let ?ctx = "\<lparr>frame = udp4_frame 0x9C 0x40, rx_queue_index = 3\<rparr>"
  have s: "stats_all 5 STAT_RX_BYTES = Some 5" by (simp add: stats_all_apply)
  have e: "Map.empty STAT_RX_BYTES = (None :: u64 option)" by simp
  note present = C9_counters_add_only [of "stats_all 5" STAT_RX_BYTES 42 5 xsk_redirect
      "[3 \<mapsto> 7]" ?ctx]
  note absent = C9_counters_add_only [of Map.empty STAT_RX_BYTES 42 5 xsk_redirect
      "[3 \<mapsto> 7]" ?ctx]
  from present s obtain a
    where a: "snd (xdp_wraith_filter xsk_redirect [3 \<mapsto> 7] ?ctx (stats_all 5)) STAT_RX_BYTES =
        Some (5 + a)" "a = 0 \<or> a = 1 \<or> a = of_nat (length (frame ?ctx))"
      "unat (5 :: u64) + unat a < 2 ^ 64 \<longrightarrow> 5 \<le> 5 + a"
    by blast
  from a(2) have small: "unat (5 :: u64) + unat a < 2 ^ 64"
    by (auto simp: length_example_frames)
  with a have "\<exists>a. snd (xdp_wraith_filter xsk_redirect [3 \<mapsto> 7] ?ctx (stats_all 5))
      STAT_RX_BYTES = Some (5 + a) \<and> unat (5 :: u64) + unat a < 2 ^ 64 \<and> 5 \<le> 5 + a"
    by blast
  moreover from present s
  have "update_stat STAT_RX_BYTES 42 (stats_all 5) = (stats_all 5)(STAT_RX_BYTES \<mapsto> 47)"
    by simp
  moreover from absent e
  have "update_stat STAT_RX_BYTES 42 Map.empty = Map.empty"
    "snd (xdp_wraith_filter xsk_redirect [3 \<mapsto> 7] ?ctx Map.empty) STAT_RX_BYTES = None"
    by simp_all
  ultimately show ?thesis using s e by blast
qed

section \<open>The unchecked header length\<close>

text \<open>
  Claim C10: the IPv4 parse does not require the header-length field to be at
  least 5. There is a frame with version 4, no fragmentation bits, protocol UDP
  and a header length below 5 on which both parses succeed, with the UDP header
  placed inside the 20 bytes of the IPv4 header; the destination port the program
  reads is the IPv4 total-length field, and the frame meets the selection
  criteria and is redirected.
\<close>

theorem C10_header_length_unchecked:
  "\<exists>p udp. ipv4_version p = 4 \<and> ipv4_ihl p < 5 \<and> \<not> ipv4_more_fragments p \<and>
     ipv4_fragment_offset p = 0 \<and> ipv4_protocol p = 17 \<and>
     parse_iphdr p = Some 14 \<and> parse_udphdr_v4 p 14 = Some udp \<and>
     udp < 14 + sizeof_iphdr \<and>
     unat (bpf_ntohs (udp_dest p udp)) = net16 p (14 + 2) \<and>
     wraith_match p \<and>
     fst (xdp_wraith_filter xsk_redirect [0 \<mapsto> 1] \<lparr>frame = p, rx_queue_index = 0\<rparr>
           (stats_all 0)) = XDP_REDIRECT"
proof (intro exI conjI)
  show "ipv4_version ihl0_frame = 4" "ipv4_ihl ihl0_frame < 5"
    "\<not> ipv4_more_fragments ihl0_frame" "ipv4_fragment_offset ihl0_frame = 0"
    "ipv4_protocol ihl0_frame = 17"
    by (simp_all add: field_defs frame_defs)
  show "parse_iphdr ihl0_frame = Some 14"
    by (simp add: parse_iphdr_eq field_defs frame_defs)
  show "parse_udphdr_v4 ihl0_frame 14 = Some 14"
    by (simp add: parse_udphdr_v4_eq field_defs frame_defs)
  show "14 < 14 + sizeof_iphdr" by (simp add: sizeof_iphdr_def)
  show "unat (bpf_ntohs (udp_dest ihl0_frame 14)) = net16 ihl0_frame (14 + 2)"
    by (simp add: udp_dest_def unat_ntohs_load)
  show m: "wraith_match ihl0_frame"
    by (simp add: selection_defs field_defs frame_defs)
  show "fst (xdp_wraith_filter xsk_redirect [0 \<mapsto> 1]
          \<lparr>frame = ihl0_frame, rx_queue_index = 0\<rparr> (stats_all 0)) = XDP_REDIRECT"
    using m by (simp add: filter_cases stat_and_redirect_code xsk_redirect_hit)
qed

end
